theory Spec2Isabelle
  imports Main "HOL-Library.Monad_Syntax"
begin

section \<open>JSON values and the Python operations the handlers use on them\<close>

text \<open>
  The backend in \<^verbatim>\<open>app.py\<close> keeps all of its data as what \<^verbatim>\<open>json.load\<close> returns:
  \<^verbatim>\<open>None\<close>, booleans, integers, floats, strings, lists and dictionaries with string keys.
  A dictionary is an association list in insertion order (Python dictionaries keep it, and
  \<^verbatim>\<open>list(d.values())\<close> shows it); its keys are distinct in every value Python can build.

  Strings are lists of 8-bit characters. A float is kept as the decimal literal it was
  written with, \<open>JFloat m e\<close> standing for \<open>m / 10 ^ e\<close>: the program creates floats only
  from two-digit literals, and rounding to binary doubles is not part of this model.
\<close>

datatype json =
    JNull
  | JBool bool
  | JInt int
  | JFloat int nat
  | JStr string
  | JArr "json list"
  | JObj "(string \<times> json) list"

type_synonym dict = "(string \<times> json) list"

text \<open>
  Every handler wraps its body in \<^verbatim>\<open>try: ... except Exception\<close> and answers 500 whatever
  the exception was. An operation that can raise therefore returns an option, \<open>None\<close>
  standing for "an exception was raised"; the comments say which one Python raises.
\<close>

text \<open>\<^verbatim>\<open>d[k] = v\<close> on a dictionary: an existing key keeps its place, a new key goes last.\<close>

fun dict_set :: "dict \<Rightarrow> string \<Rightarrow> json \<Rightarrow> dict" where
  "dict_set [] k v = [(k, v)]"
| "dict_set ((k', v') # d) k v =
     (if k' = k then (k, v) # d else (k', v') # dict_set d k v)"

text \<open>\<^verbatim>\<open>del d[k]\<close> for a key that is present.\<close>

definition dict_del :: "dict \<Rightarrow> string \<Rightarrow> dict" where
  "dict_del d k = filter (\<lambda>kv. fst kv \<noteq> k) d"

text \<open>\<^verbatim>\<open>d.update(e)\<close> for a dictionary \<open>e\<close>: the items of \<open>e\<close> are assigned in order.\<close>

definition dict_update :: "dict \<Rightarrow> dict \<Rightarrow> dict" where
  "dict_update d e = fold (\<lambda>kv acc. dict_set acc (fst kv) (snd kv)) e d"

text \<open>Truth value testing (\<^verbatim>\<open>if x\<close>, \<^verbatim>\<open>not x\<close>, \<^verbatim>\<open>x and y\<close>, \<^verbatim>\<open>x or y\<close>).\<close>

fun truthy :: "json \<Rightarrow> bool" where
  "truthy JNull = False"
| "truthy (JBool b) = b"
| "truthy (JInt i) = (i \<noteq> 0)"
| "truthy (JFloat m e) = (m \<noteq> 0)"
| "truthy (JStr s) = (s \<noteq> [])"
| "truthy (JArr xs) = (xs \<noteq> [])"
| "truthy (JObj d) = (d \<noteq> [])"

text \<open>
  Python's \<^verbatim>\<open>==\<close>. Booleans, integers and floats compare by numeric value
  (\<^verbatim>\<open>True == 1\<close>), a string equals only the same string, lists compare elementwise and
  dictionaries by key set and values, whatever the order of the keys.
\<close>

fun py_num :: "json \<Rightarrow> (int \<times> nat) option" where
  "py_num (JBool b) = Some (if b then 1 else 0, 0)"
| "py_num (JInt i) = Some (i, 0)"
| "py_num (JFloat m e) = Some (m, e)"
| "py_num _ = None"

fun py_eq :: "json \<Rightarrow> json \<Rightarrow> bool" where
  "py_eq JNull y = (y = JNull)"
| "py_eq (JStr a) y = (y = JStr a)"
| "py_eq (JArr xs) (JArr ys) = list_all2 py_eq xs ys"
| "py_eq (JArr xs) y = False"
| "py_eq (JObj a) (JObj b) =
     (set (map fst a) = set (map fst b) \<and>
      list_all (\<lambda>(k, v). list_all (\<lambda>(k', v'). k = k' \<longrightarrow> py_eq v v') b) a)"
| "py_eq (JObj a) y = False"
| "py_eq x y =
     (case (py_num x, py_num y) of
        (Some (m1, e1), Some (m2, e2)) \<Rightarrow> m1 * 10 ^ e2 = m2 * 10 ^ e1
      | _ \<Rightarrow> False)"

text \<open>\<^verbatim>\<open>x.values()\<close>: only a dictionary has it (AttributeError otherwise).\<close>

fun py_values :: "json \<Rightarrow> json list option" where
  "py_values (JObj d) = Some (map snd d)"
| "py_values _ = None"

text \<open>\<^verbatim>\<open>x.get(k, default)\<close>: only a dictionary has it (AttributeError otherwise).\<close>

fun py_get :: "json \<Rightarrow> string \<Rightarrow> json \<Rightarrow> json option" where
  "py_get (JObj d) k dflt = Some (case map_of d k of None \<Rightarrow> dflt | Some v \<Rightarrow> v)"
| "py_get _ k dflt = None"

text \<open>
  \<^verbatim>\<open>x[k]\<close> with a string \<open>k\<close>: KeyError on a dictionary without the key, TypeError on
  a list or a string (their indices are integers) and on everything else.
\<close>

fun py_getitem :: "json \<Rightarrow> string \<Rightarrow> json option" where
  "py_getitem (JObj d) k = map_of d k"
| "py_getitem _ k = None"

text \<open>\<^verbatim>\<open>x[k] = v\<close> with a string \<open>k\<close>: TypeError unless \<open>x\<close> is a dictionary.\<close>

fun py_setitem :: "json \<Rightarrow> string \<Rightarrow> json \<Rightarrow> json option" where
  "py_setitem (JObj d) k v = Some (JObj (dict_set d k v))"
| "py_setitem _ k v = None"

text \<open>\<^verbatim>\<open>del x[k]\<close>: KeyError on a dictionary without the key, TypeError otherwise.\<close>

fun py_delitem :: "json \<Rightarrow> string \<Rightarrow> json option" where
  "py_delitem (JObj d) k = (if k \<in> set (map fst d) then Some (JObj (dict_del d k)) else None)"
| "py_delitem _ k = None"

text \<open>
  \<^verbatim>\<open>k in x\<close> with a string \<open>k\<close>: a key of a dictionary, an element of a list, a
  substring of a string; TypeError on \<^verbatim>\<open>None\<close>, booleans and numbers.
\<close>

fun is_substring :: "string \<Rightarrow> string \<Rightarrow> bool" where
  "is_substring xs [] = (xs = [])"
| "is_substring xs (y # ys) = (take (length xs) (y # ys) = xs \<or> is_substring xs ys)"

fun py_contains :: "json \<Rightarrow> string \<Rightarrow> bool option" where
  "py_contains (JObj d) k = Some (k \<in> set (map fst d))"
| "py_contains (JArr xs) k = Some (list_ex (\<lambda>x. py_eq x (JStr k)) xs)"
| "py_contains (JStr s) k = Some (is_substring k s)"
| "py_contains _ k = None"

text \<open>
  \<^verbatim>\<open>x.strip()\<close>: only a string has it (AttributeError otherwise). It removes leading and
  trailing whitespace; among the 8-bit characters Python counts as whitespace the codes
  9 to 13, 28 to 32, 133 and 160.
\<close>

definition is_space :: "char \<Rightarrow> bool" where
  "is_space c = (let n = (of_char c :: nat) in
     (9 \<le> n \<and> n \<le> 13) \<or> (28 \<le> n \<and> n \<le> 32) \<or> n = 133 \<or> n = 160)"

definition strip :: "string \<Rightarrow> string" where
  "strip s = rev (dropWhile is_space (rev (dropWhile is_space s)))"

fun py_strip :: "json \<Rightarrow> string option" where
  "py_strip (JStr s) = Some (strip s)"
| "py_strip _ = None"

text \<open>\<^verbatim>\<open>s.lower()\<close>, on the ASCII letters (the only ones the allow-list can match).\<close>

definition lower_char :: "char \<Rightarrow> char" where
  "lower_char c =
     (case map_of (zip ''ABCDEFGHIJKLMNOPQRSTUVWXYZ'' ''abcdefghijklmnopqrstuvwxyz'') c of
        Some l \<Rightarrow> l
      | None \<Rightarrow> c)"

definition lower :: "string \<Rightarrow> string" where
  "lower s = map lower_char s"

text \<open>
  \<^verbatim>\<open>s.rsplit('.', 1)\<close>: the string itself when it has no dot, otherwise what is before
  and what is after its last dot. \<^verbatim>\<open>xs[1]\<close> raises IndexError on a one-element list.
\<close>

definition rsplit_dot :: "string \<Rightarrow> string list" where
  "rsplit_dot s =
     (if CHR ''.'' \<in> set s
      then [rev (tl (dropWhile (\<lambda>c. c \<noteq> CHR ''.'') (rev s))),
            rev (takeWhile (\<lambda>c. c \<noteq> CHR ''.'') (rev s))]
      else [s])"

definition index1 :: "'a list \<Rightarrow> 'a option" where
  "index1 xs = (case xs of _ # y # _ \<Rightarrow> Some y | _ \<Rightarrow> None)"

section \<open>Configuration\<close>

definition UPLOAD_FOLDER :: string where
  "UPLOAD_FOLDER = ''data''"

definition ALLOWED_EXTENSIONS :: "string set" where
  "ALLOWED_EXTENSIONS = {''txt'', ''pdf'', ''png'', ''jpg'', ''jpeg'', ''gif'', ''doc'', ''docx'',
     ''csv'', ''json'', ''xml'', ''xls'', ''xlsx'', ''md''}"

text \<open>
  \<^verbatim>\<open>os.path.join(a, b)\<close> on POSIX: an absolute \<open>b\<close> replaces \<open>a\<close>, otherwise the two are
  joined by one slash.
\<close>

definition os_path_join :: "string \<Rightarrow> string \<Rightarrow> string" where
  "os_path_join a b =
     (if take 1 b = ''/'' then b
      else if a = [] \<or> last a = CHR ''/'' then a @ b
      else a @ ''/'' @ b)"

definition PROJECTS_FILE :: string where
  "PROJECTS_FILE = os_path_join UPLOAD_FOLDER ''projects.json''"

definition GOALS_FILE :: string where
  "GOALS_FILE = os_path_join UPLOAD_FOLDER ''goals.json''"

definition INSIGHTS_FILE :: string where
  "INSIGHTS_FILE = os_path_join UPLOAD_FOLDER ''insights.json''"

definition FILES_FILE :: string where
  "FILES_FILE = os_path_join UPLOAD_FOLDER ''files.json''"

section \<open>The data directory and the JSON store\<close>

text \<open>
  The state every request reads and writes is the disk. A file is either a JSON document,
  \<open>JsonDoc v\<close> for a text that \<^verbatim>\<open>json.load\<close> parses to \<open>v\<close>, or bytes that
  \<^verbatim>\<open>json.load\<close> fails on. Uploaded bodies are kept as bytes: they are never parsed.
  \<open>unwritable\<close> holds the paths the process cannot create, overwrite or remove
  (\<^verbatim>\<open>open(..., 'w')\<close>, \<^verbatim>\<open>file.save\<close> and \<^verbatim>\<open>os.remove\<close> raise OSError there).
  Paths are compared as written; directories and the log file are not modelled.
\<close>

datatype content = JsonDoc json | Bytes string

record world =
  disk :: "string \<Rightarrow> content option"
  unwritable :: "string set"

definition os_path_exists :: "world \<Rightarrow> string \<Rightarrow> bool" where
  "os_path_exists w p = (disk w p \<noteq> None)"

text \<open>
  \<^verbatim>\<open>load_json_data\<close>: an absent file gives \<^verbatim>\<open>{}\<close>; a file that does not parse raises
  inside the \<^verbatim>\<open>try\<close>, the exception is logged and \<^verbatim>\<open>{}\<close> is returned as well.
\<close>

definition load_json_data :: "world \<Rightarrow> string \<Rightarrow> json" where
  "load_json_data w filename =
     (if os_path_exists w filename then
        (case disk w filename of
           Some (JsonDoc v) \<Rightarrow> v
         | _ \<Rightarrow> JObj [])
      else JObj [])"

text \<open>
  \<^verbatim>\<open>save_json_data\<close>: overwrites the whole file and returns \<^verbatim>\<open>True\<close>; when the file
  cannot be opened for writing the exception is logged, the file stays as it was and
  \<^verbatim>\<open>False\<close> is returned. No caller looks at the result.
\<close>

definition save_json_data :: "world \<Rightarrow> string \<Rightarrow> json \<Rightarrow> bool \<times> world" where
  "save_json_data w filename data =
     (if filename \<in> unwritable w then (False, w)
      else (True, w\<lparr>disk := (disk w)(filename \<mapsto> JsonDoc data)\<rparr>))"

text \<open>\<^verbatim>\<open>allowed_file\<close>.\<close>

definition allowed_file :: "string \<Rightarrow> bool" where
  "allowed_file filename =
     (CHR ''.'' \<in> set filename \<and>
      (case index1 (rsplit_dot filename) of
         Some ext \<Rightarrow> lower ext \<in> ALLOWED_EXTENSIONS
       | None \<Rightarrow> False))"

section \<open>Requests, responses and what the environment supplies\<close>

text \<open>
  A response is a status code and a JSON body (\<^verbatim>\<open>jsonify(x)\<close> alone is status 200).
  Each handler takes the state of the disk and returns its response with the new state; a
  handler that only reads returns its response. What the environment supplies during a
  request is an argument: the strings \<^verbatim>\<open>str(uuid.uuid4())\<close> returns, the strings
  \<^verbatim>\<open>datetime.now().isoformat()\<close> returns, and the value of \<^verbatim>\<open>request.get_json()\<close>
  (\<open>None\<close> when it raises, which the handler's own \<^verbatim>\<open>except\<close> turns into a 500).
  Logging is left out, except that a log line which reads a key of a record raises
  KeyError when the key is missing.
\<close>

datatype response = Response (status: nat) (body: json)

definition error_response :: "nat \<Rightarrow> string \<Rightarrow> response" where
  "error_response code msg = Response code (JObj [(''error'', JStr msg)])"

definition message_response :: "string \<Rightarrow> response" where
  "message_response msg = Response 200 (JObj [(''message'', JStr msg)])"

text \<open>
  \<^verbatim>\<open>[r for r in xs if r.get('project_id') == project_id]\<close>, the filter every listing and
  count uses. It raises when an element is not a dictionary.
\<close>

fun records_of_project :: "json list \<Rightarrow> json \<Rightarrow> json list option" where
  "records_of_project [] project_id = Some []"
| "records_of_project (r # rs) project_id =
     do {
       v \<leftarrow> py_get r ''project_id'' JNull;
       rest \<leftarrow> records_of_project rs project_id;
       Some (if py_eq v project_id then r # rest else rest)
     }"

section \<open>Project endpoints\<close>

text \<open>The body of the loop of \<^verbatim>\<open>get_projects\<close>, for one project.\<close>

definition with_counts :: "json \<Rightarrow> json \<Rightarrow> json \<Rightarrow> json \<Rightarrow> json option" where
  "with_counts files goals insights project =
     do {
       project_id \<leftarrow> py_getitem project ''id'';
       fs \<leftarrow> py_values files;
       fs' \<leftarrow> records_of_project fs project_id;
       p1 \<leftarrow> py_setitem project ''documents_count'' (JInt (int (length fs')));
       gs \<leftarrow> py_values goals;
       gs' \<leftarrow> records_of_project gs project_id;
       p2 \<leftarrow> py_setitem p1 ''goals_count'' (JInt (int (length gs')));
       ins \<leftarrow> py_values insights;
       ins' \<leftarrow> records_of_project ins project_id;
       p3 \<leftarrow> py_setitem p2 ''insights_count'' (JInt (int (length ins')));
       rp \<leftarrow> py_get p3 ''research_progress'' (JInt 0);
       py_setitem p3 ''research_progress'' rp
     }"

fun count_loop :: "json \<Rightarrow> json \<Rightarrow> json \<Rightarrow> json list \<Rightarrow> json list option" where
  "count_loop files goals insights [] = Some []"
| "count_loop files goals insights (p # ps) =
     do {
       p' \<leftarrow> with_counts files goals insights p;
       ps' \<leftarrow> count_loop files goals insights ps;
       Some (p' # ps')
     }"

definition get_projects :: "world \<Rightarrow> response" where
  "get_projects w =
     (let projects = load_json_data w PROJECTS_FILE in
      case do {
             projects_list \<leftarrow> (if truthy projects then py_values projects else Some []);
             count_loop (load_json_data w FILES_FILE) (load_json_data w GOALS_FILE)
               (load_json_data w INSIGHTS_FILE) projects_list
           } of
        Some projects_list \<Rightarrow> Response 200 (JObj [(''projects'', JArr projects_list)])
      | None \<Rightarrow> error_response 500 ''Failed to get projects'')"

text \<open>
  \<^verbatim>\<open>create_project\<close>. Both \<^verbatim>\<open>strip()\<close> calls run before the name is tested, so a name
  or a description that is present and not a string ends in the 500.
\<close>

definition new_project :: "string \<Rightarrow> string \<Rightarrow> string \<Rightarrow> string \<Rightarrow> string \<Rightarrow> json" where
  "new_project project_id name description created updated =
     JObj [(''id'', JStr project_id),
           (''name'', JStr name),
           (''description'', JStr description),
           (''status'', JStr ''setup''),
           (''created_at'', JStr created),
           (''updated_at'', JStr updated),
           (''documents_count'', JInt 0),
           (''goals_count'', JInt 0),
           (''insights_count'', JInt 0),
           (''research_progress'', JInt 0)]"

definition create_project ::
  "world \<Rightarrow> json option \<Rightarrow> string \<Rightarrow> string \<Rightarrow> string \<Rightarrow> response \<times> world" where
  "create_project w request_json uuid now1 now2 =
     (case do {
             data \<leftarrow> request_json;
             n \<leftarrow> py_get data ''name'' (JStr []);
             name \<leftarrow> py_strip n;
             d \<leftarrow> py_get data ''description'' (JStr []);
             description \<leftarrow> py_strip d;
             Some (name, description)
           } of
        None \<Rightarrow> (error_response 500 ''Failed to create project'', w)
      | Some (name, description) \<Rightarrow>
          if name = [] then (error_response 400 ''Project name is required'', w)
          else
            let projects = load_json_data w PROJECTS_FILE;
                project_id = uuid;
                project = new_project project_id name description now1 now2
            in case py_setitem projects project_id project of
                 None \<Rightarrow> (error_response 500 ''Failed to create project'', w)
               | Some projects' \<Rightarrow>
                   (Response 201 (JObj [(''project'', project)]),
                    snd (save_json_data w PROJECTS_FILE projects')))"

text \<open>
  \<^verbatim>\<open>start_research\<close>. \<^verbatim>\<open>project\<close> is the record inside \<^verbatim>\<open>projects\<close>, so the three
  assignments change the dictionary that is saved.
\<close>

definition start_research :: "world \<Rightarrow> string \<Rightarrow> string \<Rightarrow> response \<times> world" where
  "start_research w project_id now =
     (let projects = load_json_data w PROJECTS_FILE in
      case py_contains projects project_id of
        None \<Rightarrow> (error_response 500 ''Failed to start research'', w)
      | Some False \<Rightarrow> (error_response 404 ''Project not found'', w)
      | Some True \<Rightarrow>
          (case do {
                  project \<leftarrow> py_getitem projects project_id;
                  p1 \<leftarrow> py_setitem project ''status'' (JStr ''researching'');
                  p2 \<leftarrow> py_setitem p1 ''updated_at'' (JStr now);
                  p3 \<leftarrow> py_setitem p2 ''research_progress'' (JInt 0);
                  projects' \<leftarrow> py_setitem projects project_id p3;
                  Some (p3, projects')
                } of
             None \<Rightarrow> (error_response 500 ''Failed to start research'', w)
           | Some (project, projects') \<Rightarrow>
               let w' = snd (save_json_data w PROJECTS_FILE projects') in
               (case py_getitem project ''name'' of
                  None \<Rightarrow> (error_response 500 ''Failed to start research'', w')
                | Some name \<Rightarrow> (message_response ''Research started successfully'', w'))))"

section \<open>File endpoints\<close>

text \<open>
  The file part of a multipart request: the submitted filename, the part's content type
  (\<^verbatim>\<open>None\<close> when the part has none) and its bytes. \<open>None\<close> as the whole part is a
  request without the field \<^verbatim>\<open>file\<close>; \<open>form_project_id\<close> is
  \<^verbatim>\<open>request.form.get('project_id')\<close>.
\<close>

record upload =
  filename :: string
  content_type :: "string option"
  stream :: string

text \<open>
  \<^verbatim>\<open>file.save(path)\<close> writes the bytes of the part, or raises where the path cannot
  be written.
\<close>

definition file_save :: "world \<Rightarrow> string \<Rightarrow> string \<Rightarrow> world option" where
  "file_save w path bytes =
     (if path \<in> unwritable w then None
      else Some (w\<lparr>disk := (disk w)(path \<mapsto> Bytes bytes)\<rparr>))"

definition new_file ::
  "string \<Rightarrow> string \<Rightarrow> string \<Rightarrow> nat \<Rightarrow> string \<Rightarrow> string \<Rightarrow> string \<Rightarrow> string \<Rightarrow> json" where
  "new_file file_id fname original nbytes mime project_id now path =
     JObj [(''id'', JStr file_id),
           (''filename'', JStr fname),
           (''original_name'', JStr original),
           (''size'', JInt (int nbytes)),
           (''type'', JStr mime),
           (''project_id'', JStr project_id),
           (''upload_date'', JStr now),
           (''status'', JStr ''completed''),
           (''path'', JStr path)]"

text \<open>
  \<^verbatim>\<open>upload_file\<close>. \<^verbatim>\<open>secure_filename\<close> is library code (werkzeug) and is an argument
  of the model. The four validations come first; the extension is then read again, from the
  sanitised name, and \<^verbatim>\<open>[1]\<close> raises IndexError when that name has no dot. The size
  recorded is \<^verbatim>\<open>os.path.getsize\<close> of the file just written, the length of the part.
\<close>

definition upload_file ::
  "(string \<Rightarrow> string) \<Rightarrow> world \<Rightarrow> upload option \<Rightarrow> string option \<Rightarrow> string \<Rightarrow> string
     \<Rightarrow> response \<times> world" where
  "upload_file secure_filename w file_part form_project_id uuid now =
     (case file_part of
        None \<Rightarrow> (error_response 400 ''No file provided'', w)
      | Some file \<Rightarrow>
          if form_project_id = None \<or> form_project_id = Some [] then
            (error_response 400 ''Project ID is required'', w)
          else if filename file = [] then
            (error_response 400 ''No file selected'', w)
          else if \<not> allowed_file (filename file) then
            (error_response 400 ''File type not allowed'', w)
          else
            let fname = secure_filename (filename file);
                file_id = uuid
            in case index1 (rsplit_dot fname) of
                 None \<Rightarrow> (error_response 500 ''Failed to upload file'', w)
               | Some ext \<Rightarrow>
                   let file_extension = lower ext;
                       file_path = os_path_join UPLOAD_FOLDER (file_id @ ''_'' @ fname)
                   in case file_save w file_path (stream file) of
                        None \<Rightarrow> (error_response 500 ''Failed to upload file'', w)
                      | Some w1 \<Rightarrow>
                          let files = load_json_data w1 FILES_FILE;
                              file_data =
                                new_file file_id fname (filename file) (length (stream file))
                                  (case content_type file of
                                     None \<Rightarrow> ''application/'' @ file_extension
                                   | Some t \<Rightarrow>
                                       if t = [] then ''application/'' @ file_extension else t)
                                  (the form_project_id) now file_path
                          in case py_setitem files file_id file_data of
                               None \<Rightarrow> (error_response 500 ''Failed to upload file'', w1)
                             | Some files' \<Rightarrow>
                                 (Response 200 (JObj [(''file'', file_data)]),
                                  snd (save_json_data w1 FILES_FILE files')))"

definition list_files :: "world \<Rightarrow> response" where
  "list_files w =
     (let files = load_json_data w FILES_FILE in
      case (if truthy files then py_values files else Some []) of
        Some files_list \<Rightarrow> Response 200 (JObj [(''files'', JArr files_list)])
      | None \<Rightarrow> error_response 500 ''Failed to list files'')"

text \<open>
  The removal of the physical file in \<^verbatim>\<open>delete_file\<close>:
  \<^verbatim>\<open>if file_path and os.path.exists(file_path): os.remove(file_path)\<close>.
  A falsy path skips it. A list, a dictionary or a float makes \<^verbatim>\<open>os.path.exists\<close>
  raise TypeError. An integer (or \<^verbatim>\<open>True\<close>) is read by the operating system as a file
  descriptor, which this model of the disk does not have: the outer \<open>None\<close> says that
  the model does not cover it. The inner \<open>None\<close> is a raised exception.
\<close>

definition remove_physical :: "world \<Rightarrow> json \<Rightarrow> world option option" where
  "remove_physical w file_path =
     (if \<not> truthy file_path then Some (Some w)
      else case file_path of
             JStr p \<Rightarrow>
               Some (if os_path_exists w p
                     then (if p \<in> unwritable w then None
                           else Some (w\<lparr>disk := (disk w)(p := None)\<rparr>))
                     else Some w)
           | JArr xs \<Rightarrow> Some None
           | JObj d \<Rightarrow> Some None
           | JFloat m e \<Rightarrow> Some None
           | _ \<Rightarrow> None)"

definition delete_file :: "world \<Rightarrow> string \<Rightarrow> (response \<times> world) option" where
  "delete_file w file_id =
     (let files = load_json_data w FILES_FILE in
      case py_contains files file_id of
        None \<Rightarrow> Some (error_response 500 ''Failed to delete file'', w)
      | Some False \<Rightarrow> Some (error_response 404 ''File not found'', w)
      | Some True \<Rightarrow>
          (case do {
                  file_data \<leftarrow> py_getitem files file_id;
                  file_path \<leftarrow> py_get file_data ''path'' JNull;
                  Some (file_data, file_path)
                } of
             None \<Rightarrow> Some (error_response 500 ''Failed to delete file'', w)
           | Some (file_data, file_path) \<Rightarrow>
               (case remove_physical w file_path of
                  None \<Rightarrow> None
                | Some None \<Rightarrow> Some (error_response 500 ''Failed to delete file'', w)
                | Some (Some w1) \<Rightarrow>
                    (case py_delitem files file_id of
                       None \<Rightarrow> Some (error_response 500 ''Failed to delete file'', w1)
                     | Some files' \<Rightarrow>
                         let w2 = snd (save_json_data w1 FILES_FILE files') in
                         (case py_getitem file_data ''filename'' of
                            None \<Rightarrow> Some (error_response 500 ''Failed to delete file'', w2)
                          | Some name \<Rightarrow>
                              Some (message_response ''File deleted successfully'', w2))))))"

section \<open>Goal endpoints\<close>

definition get_project_goals :: "world \<Rightarrow> string \<Rightarrow> response" where
  "get_project_goals w project_id =
     (let goals = load_json_data w GOALS_FILE in
      case do {
             gs \<leftarrow> py_values goals;
             records_of_project gs (JStr project_id)
           } of
        Some project_goals \<Rightarrow> Response 200 (JObj [(''goals'', JArr project_goals)])
      | None \<Rightarrow> error_response 500 ''Failed to get goals'')"

definition new_goal ::
  "string \<Rightarrow> string \<Rightarrow> string \<Rightarrow> json \<Rightarrow> string \<Rightarrow> string \<Rightarrow> string \<Rightarrow> json" where
  "new_goal goal_id title description priority project_id created updated =
     JObj [(''id'', JStr goal_id),
           (''title'', JStr title),
           (''description'', JStr description),
           (''priority'', priority),
           (''status'', JStr ''active''),
           (''project_id'', JStr project_id),
           (''created_at'', JStr created),
           (''updated_at'', JStr updated),
           (''progress'', JInt 0)]"

definition create_goal ::
  "world \<Rightarrow> json option \<Rightarrow> string \<Rightarrow> string \<Rightarrow> string \<Rightarrow> string \<Rightarrow> response \<times> world" where
  "create_goal w request_json project_id uuid now1 now2 =
     (case do {
             data \<leftarrow> request_json;
             t \<leftarrow> py_get data ''title'' (JStr []);
             title \<leftarrow> py_strip t;
             d \<leftarrow> py_get data ''description'' (JStr []);
             description \<leftarrow> py_strip d;
             priority \<leftarrow> py_get data ''priority'' (JStr ''medium'');
             Some (title, description, priority)
           } of
        None \<Rightarrow> (error_response 500 ''Failed to create goal'', w)
      | Some (title, description, priority) \<Rightarrow>
          if title = [] then (error_response 400 ''Goal title is required'', w)
          else
            let goals = load_json_data w GOALS_FILE;
                goal_id = uuid;
                goal = new_goal goal_id title description priority project_id now1 now2
            in case py_setitem goals goal_id goal of
                 None \<Rightarrow> (error_response 500 ''Failed to create goal'', w)
               | Some goals' \<Rightarrow>
                   (Response 201 (JObj [(''goal'', goal)]),
                    snd (save_json_data w GOALS_FILE goals')))"

text \<open>
  \<^verbatim>\<open>goal.update(data)\<close>. Only a dictionary has \<^verbatim>\<open>update\<close>. With a dictionary as
  \<open>data\<close> its items are assigned in order; \<^verbatim>\<open>None\<close>, a boolean or a number is not
  iterable (TypeError); the empty string and the empty list change nothing; a non-empty
  string raises ValueError (its elements have length 1). A non-empty list is read as a
  sequence of key/value pairs, whose keys need not be strings: the model does not cover
  it (the outer \<open>None\<close>). The inner \<open>None\<close> is a raised exception.
\<close>

fun py_update :: "json \<Rightarrow> json \<Rightarrow> json option option" where
  "py_update (JObj d) (JObj e) = Some (Some (JObj (dict_update d e)))"
| "py_update (JObj d) (JStr s) = Some (if s = [] then Some (JObj d) else None)"
| "py_update (JObj d) (JArr xs) = (if xs = [] then Some (Some (JObj d)) else None)"
| "py_update (JObj d) _ = Some None"
| "py_update _ _ = Some None"

definition update_goal ::
  "world \<Rightarrow> json option \<Rightarrow> string \<Rightarrow> string \<Rightarrow> (response \<times> world) option" where
  "update_goal w request_json goal_id now =
     (case request_json of
        None \<Rightarrow> Some (error_response 500 ''Failed to update goal'', w)
      | Some data \<Rightarrow>
          let goals = load_json_data w GOALS_FILE in
          case py_contains goals goal_id of
            None \<Rightarrow> Some (error_response 500 ''Failed to update goal'', w)
          | Some False \<Rightarrow> Some (error_response 404 ''Goal not found'', w)
          | Some True \<Rightarrow>
              (case py_getitem goals goal_id of
                 None \<Rightarrow> Some (error_response 500 ''Failed to update goal'', w)
               | Some goal \<Rightarrow>
                   (case py_update goal data of
                      None \<Rightarrow> None
                    | Some None \<Rightarrow> Some (error_response 500 ''Failed to update goal'', w)
                    | Some (Some g1) \<Rightarrow>
                        (case do {
                                g2 \<leftarrow> py_setitem g1 ''updated_at'' (JStr now);
                                goals' \<leftarrow> py_setitem goals goal_id g2;
                                Some (g2, goals')
                              } of
                           None \<Rightarrow> Some (error_response 500 ''Failed to update goal'', w)
                         | Some (goal', goals') \<Rightarrow>
                             let w' = snd (save_json_data w GOALS_FILE goals') in
                             (case py_getitem goal' ''title'' of
                                None \<Rightarrow>
                                  Some (error_response 500 ''Failed to update goal'', w')
                              | Some title \<Rightarrow>
                                  Some (Response 200 (JObj [(''goal'', goal')]), w'))))))"

definition delete_goal :: "world \<Rightarrow> string \<Rightarrow> response \<times> world" where
  "delete_goal w goal_id =
     (let goals = load_json_data w GOALS_FILE in
      case py_contains goals goal_id of
        None \<Rightarrow> (error_response 500 ''Failed to delete goal'', w)
      | Some False \<Rightarrow> (error_response 404 ''Goal not found'', w)
      | Some True \<Rightarrow>
          (case do {
                  goal \<leftarrow> py_getitem goals goal_id;
                  goals' \<leftarrow> py_delitem goals goal_id;
                  Some (goal, goals')
                } of
             None \<Rightarrow> (error_response 500 ''Failed to delete goal'', w)
           | Some (goal, goals') \<Rightarrow>
               let w' = snd (save_json_data w GOALS_FILE goals') in
               (case py_getitem goal ''title'' of
                  None \<Rightarrow> (error_response 500 ''Failed to delete goal'', w')
                | Some title \<Rightarrow> (message_response ''Goal deleted successfully'', w'))))"

section \<open>Insight endpoints\<close>

definition get_project_insights :: "world \<Rightarrow> string \<Rightarrow> response" where
  "get_project_insights w project_id =
     (let insights = load_json_data w INSIGHTS_FILE in
      case do {
             is \<leftarrow> py_values insights;
             records_of_project is (JStr project_id)
           } of
        Some project_insights \<Rightarrow> Response 200 (JObj [(''insights'', JArr project_insights)])
      | None \<Rightarrow> error_response 500 ''Failed to get insights'')"

text \<open>The three literal records of \<^verbatim>\<open>generate_insights\<close>; 0.85 is \<open>JFloat 85 2\<close>.\<close>

definition new_insight ::
  "string \<Rightarrow> string \<Rightarrow> string \<Rightarrow> int \<Rightarrow> int \<Rightarrow> string list \<Rightarrow> string \<Rightarrow> string \<Rightarrow> json" where
  "new_insight insight_id content insight_type confidence relevance tags project_id now =
     JObj [(''id'', JStr insight_id),
           (''content'', JStr content),
           (''insight_type'', JStr insight_type),
           (''confidence_score'', JFloat confidence 2),
           (''relevance_score'', JFloat relevance 2),
           (''tags'', JArr (map JStr tags)),
           (''project_id'', JStr project_id),
           (''created_at'', JStr now)]"

definition finding_content :: string where
  "finding_content = ''Based on the uploaded documents, there appears to be a strong correlation between market trends and consumer behavior patterns.''"

definition recommendation_content :: string where
  "recommendation_content = ''The data suggests implementing a phased approach to the proposed strategy would minimize risk while maximizing potential returns.''"

definition question_content :: string where
  "question_content = ''Further investigation is needed to understand the underlying factors driving these observed patterns.''"

definition sample_insights ::
  "string \<Rightarrow> string \<Rightarrow> string \<Rightarrow> string \<Rightarrow> string \<Rightarrow> string \<Rightarrow> string \<Rightarrow> json list" where
  "sample_insights project_id uuid1 uuid2 uuid3 now1 now2 now3 =
     [new_insight uuid1 finding_content ''finding'' 85 92
        [''market analysis'', ''consumer behavior'', ''trends''] project_id now1,
      new_insight uuid2 recommendation_content ''recommendation'' 78 88
        [''strategy'', ''risk management'', ''implementation''] project_id now2,
      new_insight uuid3 question_content ''question'' 65 75
        [''investigation'', ''patterns'', ''analysis''] project_id now3]"

text \<open>\<^verbatim>\<open>for insight in sample_insights: insights[insight['id']] = insight\<close>.\<close>

fun store_insights :: "json \<Rightarrow> json list \<Rightarrow> json option" where
  "store_insights insights [] = Some insights"
| "store_insights insights (insight # rest) =
     (case py_getitem insight ''id'' of
        Some (JStr k) \<Rightarrow>
          (case py_setitem insights k insight of
             None \<Rightarrow> None
           | Some insights' \<Rightarrow> store_insights insights' rest)
      | _ \<Rightarrow> None)"

text \<open>
  \<^verbatim>\<open>x + n\<close> and \<^verbatim>\<open>min(n, x)\<close> for an integer \<open>n\<close>. Booleans and numbers add as numbers;
  anything else raises TypeError. \<^verbatim>\<open>min(n, x)\<close> is \<open>x\<close> when \<open>x < n\<close> and \<open>n\<close>
  otherwise. On booleans and integers this is Python's arithmetic. On a float the sum is
  the exact decimal, where Python rounds to a binary double (2.01 + 25 is stored as
  27.009999999999998); the theorems below are about integer progress only.
\<close>

fun py_add_int :: "json \<Rightarrow> int \<Rightarrow> json option" where
  "py_add_int (JBool b) n = Some (JInt ((if b then 1 else 0) + n))"
| "py_add_int (JInt i) n = Some (JInt (i + n))"
| "py_add_int (JFloat m e) n = Some (JFloat (m + n * 10 ^ e) e)"
| "py_add_int _ n = None"

fun py_min_int :: "int \<Rightarrow> json \<Rightarrow> json option" where
  "py_min_int n (JBool b) = Some (if (if b then 1 else 0) < n then JBool b else JInt n)"
| "py_min_int n (JInt i) = Some (if i < n then JInt i else JInt n)"
| "py_min_int n (JFloat m e) = Some (if m < n * 10 ^ e then JFloat m e else JInt n)"
| "py_min_int n _ = None"

text \<open>
  \<^verbatim>\<open>generate_insights\<close>. The insights are saved first; the project is looked up
  afterwards, and only a known project has its progress raised. Nothing answers 404.
\<close>

definition generate_insights ::
  "world \<Rightarrow> string \<Rightarrow> string \<Rightarrow> string \<Rightarrow> string \<Rightarrow> string \<Rightarrow> string \<Rightarrow> string \<Rightarrow> string
     \<Rightarrow> response \<times> world" where
  "generate_insights w project_id uuid1 uuid2 uuid3 now1 now2 now3 now4 =
     (let insights = load_json_data w INSIGHTS_FILE in
      case store_insights insights
             (sample_insights project_id uuid1 uuid2 uuid3 now1 now2 now3) of
        None \<Rightarrow> (error_response 500 ''Failed to generate insights'', w)
      | Some insights' \<Rightarrow>
          let w1 = snd (save_json_data w INSIGHTS_FILE insights');
              projects = load_json_data w1 PROJECTS_FILE
          in case py_contains projects project_id of
               None \<Rightarrow> (error_response 500 ''Failed to generate insights'', w1)
             | Some False \<Rightarrow> (message_response ''Insights generated successfully'', w1)
             | Some True \<Rightarrow>
                 (case do {
                         project \<leftarrow> py_getitem projects project_id;
                         rp \<leftarrow> py_get project ''research_progress'' (JInt 0);
                         s \<leftarrow> py_add_int rp 25;
                         m \<leftarrow> py_min_int 100 s;
                         p1 \<leftarrow> py_setitem project ''research_progress'' m;
                         p2 \<leftarrow> py_setitem p1 ''updated_at'' (JStr now4);
                         py_setitem projects project_id p2
                       } of
                    None \<Rightarrow> (error_response 500 ''Failed to generate insights'', w1)
                  | Some projects' \<Rightarrow>
                      (message_response ''Insights generated successfully'',
                       snd (save_json_data w1 PROJECTS_FILE projects'))))"

section \<open>The filename sanitiser of the library\<close>

text \<open>
  \<^verbatim>\<open>werkzeug.utils.secure_filename\<close> on POSIX, transcribed for evaluating
  \<^verbatim>\<open>upload_file\<close> on concrete names: path separators become spaces, the name is split
  at whitespace and joined with underscores, every character other than an ASCII letter,
  a digit, \<^verbatim>\<open>_\<close>, \<^verbatim>\<open>.\<close> and \<^verbatim>\<open>-\<close> is removed, and dots and underscores are
  stripped from both ends. This is werkzeug's function on names of ASCII characters only,
  and it is evaluated below on such names only. A character outside ASCII is dropped
  here, whereas werkzeug first decomposes it (NFKD) and keeps the ASCII part, so that
  an accented letter keeps its base letter and a no-break space counts as a space there.
\<close>

fun split_whitespace :: "string \<Rightarrow> string \<Rightarrow> string list" where
  "split_whitespace cur [] = (if cur = [] then [] else [rev cur])"
| "split_whitespace cur (c # cs) =
     (if is_space c
      then (if cur = [] then split_whitespace [] cs else rev cur # split_whitespace [] cs)
      else split_whitespace (c # cur) cs)"

fun join_with :: "string \<Rightarrow> string list \<Rightarrow> string" where
  "join_with sep [] = []"
| "join_with sep [x] = x"
| "join_with sep (x # y # ys) = x @ sep @ join_with sep (y # ys)"

definition filename_char :: "char \<Rightarrow> bool" where
  "filename_char c =
     (c \<in> set ''ABCDEFGHIJKLMNOPQRSTUVWXYZabcdefghijklmnopqrstuvwxyz0123456789_.-'')"

definition strip_chars :: "string \<Rightarrow> string \<Rightarrow> string" where
  "strip_chars cs s =
     rev (dropWhile (\<lambda>c. c \<in> set cs) (rev (dropWhile (\<lambda>c. c \<in> set cs) s)))"

definition werkzeug_secure_filename :: "string \<Rightarrow> string" where
  "werkzeug_secure_filename name =
     strip_chars ''._''
       (filter filename_char
          (join_with ''_''
             (split_whitespace []
                (map (\<lambda>c. if c = CHR ''/'' then CHR '' '' else c)
                   (filter (\<lambda>c. (of_char c :: nat) < 128) name)))))"

section \<open>The listings, as the specification words them\<close>

text \<open>
  The specification speaks of the records "whose project_id equals" a project's id and of
  their number. These definitions say that directly, without the handlers' loops: a record
  of project \<open>project_id\<close> is a dictionary whose \<^verbatim>\<open>project_id\<close> (\<^verbatim>\<open>None\<close> when it
  has none) equals it. The theorems on listings compare the handlers with them.
\<close>

fun is_dict :: "json \<Rightarrow> bool" where
  "is_dict (JObj d) = True"
| "is_dict _ = False"

fun has_project_id :: "json \<Rightarrow> json \<Rightarrow> bool" where
  "has_project_id project_id (JObj d) =
     py_eq (case map_of d ''project_id'' of None \<Rightarrow> JNull | Some v \<Rightarrow> v) project_id"
| "has_project_id project_id _ = False"

definition count_records :: "json \<Rightarrow> dict \<Rightarrow> int" where
  "count_records project_id store = int (length (filter (has_project_id project_id) (map snd store)))"

text \<open>
  What the listing of projects is claimed to return for one stored project: the stored
  record with its three counts replaced by the numbers of file, goal and insight records
  of that project, its \<^verbatim>\<open>research_progress\<close> (0 when it has none) and every other
  field as stored.
\<close>

definition listed_with_counts :: "dict \<Rightarrow> dict \<Rightarrow> dict \<Rightarrow> json \<Rightarrow> json \<Rightarrow> bool" where
  "listed_with_counts files goals insights stored returned =
     (\<exists>project_id.
        py_getitem stored ''id'' = Some project_id \<and>
        py_getitem returned ''documents_count'' = Some (JInt (count_records project_id files)) \<and>
        py_getitem returned ''goals_count'' = Some (JInt (count_records project_id goals)) \<and>
        py_getitem returned ''insights_count'' = Some (JInt (count_records project_id insights)) \<and>
        py_getitem returned ''research_progress'' =
          Some (case py_getitem stored ''research_progress'' of None \<Rightarrow> JInt 0 | Some v \<Rightarrow> v) \<and>
        (\<forall>k. k \<notin> {''documents_count'', ''goals_count'', ''insights_count'', ''research_progress''}
           \<longrightarrow> py_getitem returned k = py_getitem stored k))"

section \<open>Example states\<close>

text \<open>
  Concrete states of the data directory and a concrete file part, at which the theorems
  below are instantiated: an empty directory; an empty directory in which the projects
  file cannot be written; a projects store with two projects; a directory with two
  uploaded files and two goals; and the same with two projects whose stored counts are
  stale.
\<close>

definition empty_world :: world where
  "empty_world = \<lparr>disk = Map.empty, unwritable = {}\<rparr>"

definition readonly_world :: world where
  "readonly_world = \<lparr>disk = Map.empty, unwritable = {PROJECTS_FILE}\<rparr>"

definition text_upload :: "string \<Rightarrow> upload" where
  "text_upload name = \<lparr>filename = name, content_type = Some ''text/plain'', stream = ''hello''\<rparr>"

definition research_example :: world where
  "research_example =
     \<lparr>disk = [PROJECTS_FILE \<mapsto> JsonDoc (JObj
        [(''p1'', JObj [(''id'', JStr ''p1''), (''name'', JStr ''Alpha''),
                        (''status'', JStr ''setup''), (''research_progress'', JInt 50)]),
         (''p2'', JObj [(''id'', JStr ''p2''), (''name'', JStr ''Beta''),
                        (''status'', JStr ''setup'')])])],
      unwritable = {}\<rparr>"

definition files_example :: world where
  "files_example =
     \<lparr>disk = [FILES_FILE \<mapsto> JsonDoc (JObj
                 [(''f1'', JObj [(''id'', JStr ''f1''), (''filename'', JStr ''a.txt''),
                                 (''project_id'', JStr ''p1''), (''path'', JStr ''data/f1_a.txt'')]),
                  (''f2'', JObj [(''id'', JStr ''f2''), (''filename'', JStr ''b.txt''),
                                 (''project_id'', JStr ''p2''), (''path'', JStr ''data/f2_b.txt'')])]),
              ''data/f1_a.txt'' \<mapsto> Bytes ''hello'',
              ''data/f2_b.txt'' \<mapsto> Bytes ''world'',
              GOALS_FILE \<mapsto> JsonDoc (JObj
                 [(''g1'', JObj [(''id'', JStr ''g1''), (''title'', JStr ''Read''),
                                 (''status'', JStr ''active''), (''project_id'', JStr ''p1''),
                                 (''updated_at'', JStr ''t0'')]),
                  (''g2'', JObj [(''id'', JStr ''g2''), (''title'', JStr ''Write''),
                                 (''status'', JStr ''active''), (''project_id'', JStr ''p1''),
                                 (''updated_at'', JStr ''t0'')])])],
      unwritable = {}\<rparr>"

definition counts_example :: world where
  "counts_example =
     files_example\<lparr>disk := (disk files_example)(PROJECTS_FILE \<mapsto> JsonDoc (JObj
        [(''p1'', JObj [(''id'', JStr ''p1''), (''name'', JStr ''Alpha''),
                        (''documents_count'', JInt 7), (''goals_count'', JInt 0),
                        (''insights_count'', JInt 3), (''research_progress'', JInt 50)]),
         (''p2'', JObj [(''id'', JStr ''p2''), (''name'', JStr ''Beta'')])]))\<rparr>"

section \<open>Facts about dictionaries and the store\<close>

lemma map_of_dict_set: "map_of (dict_set d k v) = (map_of d)(k \<mapsto> v)"
  by (induction d) (auto simp: fun_eq_iff)

lemma map_fst_dict_set:
  "map fst (dict_set d k v) = (if k \<in> fst ` set d then map fst d else map fst d @ [k])"
proof (induction d)
  case Nil
  then show ?case by simp
next
  case (Cons a d)
  obtain k' v' where a: "a = (k', v')" by (cases a)
  show ?case using Cons.IH by (simp add: a)
qed

lemma keys_dict_set: "fst ` set (dict_set d k v) = insert k (fst ` set d)"
proof -
  have "set (map fst (dict_set d k v)) = insert k (set (map fst d))"
    unfolding map_fst_dict_set by auto
  then show ?thesis by simp
qed

lemma dict_set_fresh: "k \<notin> fst ` set d \<Longrightarrow> dict_set d k v = d @ [(k, v)]"
  by (induction d) auto

lemma map_of_dict_del: "map_of (dict_del d k) = (map_of d)(k := None)"
  by (induction d) (auto simp: dict_del_def fun_eq_iff)

lemma keys_dict_del: "fst ` set (dict_del d k) = fst ` set d - {k}"
  by (auto simp: dict_del_def)


lemma map_of_in_keys: "map_of d k = Some v \<Longrightarrow> k \<in> fst ` set d"
  by (metis domI dom_map_of_conv_image_fst)

lemma store_paths:
  "PROJECTS_FILE = ''data/projects.json''" "GOALS_FILE = ''data/goals.json''"
  "INSIGHTS_FILE = ''data/insights.json''" "FILES_FILE = ''data/files.json''"
  by (simp_all add: PROJECTS_FILE_def GOALS_FILE_def INSIGHTS_FILE_def FILES_FILE_def
      os_path_join_def UPLOAD_FOLDER_def)

lemma load_after_save:
  "f \<notin> unwritable w \<Longrightarrow> load_json_data (snd (save_json_data w f v)) f = v"
  by (simp add: load_json_data_def save_json_data_def os_path_exists_def)

lemma load_other_after_save:
  "g \<noteq> f \<Longrightarrow> load_json_data (snd (save_json_data w f v)) g = load_json_data w g"
  by (simp add: load_json_data_def save_json_data_def os_path_exists_def)

lemma disk_after_save:
  "disk (snd (save_json_data w f v)) =
     (if f \<in> unwritable w then disk w else (disk w)(f \<mapsto> JsonDoc v))"
  by (simp add: save_json_data_def)

lemma unwritable_after_save: "unwritable (snd (save_json_data w f v)) = unwritable w"
  by (simp add: save_json_data_def)

lemma py_eq_JStr: "py_eq v (JStr s) \<longleftrightarrow> v = JStr s"
  by (cases v) auto

section \<open>The JSON store\<close>

text \<open>
  C6. \<^verbatim>\<open>load_json_data\<close> returns what the file parses to when the file exists and
  parses, and the empty dictionary when the file is absent or does not parse. It is a
  total function into JSON values: no failure reaches the caller.
\<close>

theorem load_json_data_swallows_failure:
  "load_json_data w f =
     (case disk w f of
        None \<Rightarrow> JObj []
      | Some (Bytes b) \<Rightarrow> JObj []
      | Some (JsonDoc v) \<Rightarrow> v)"
  by (simp add: load_json_data_def os_path_exists_def split: option.splits content.splits)

section \<open>Starting research\<close>

lemma start_research_unknown:
  assumes "py_contains (load_json_data w PROJECTS_FILE) project_id = Some False"
  shows "start_research w project_id now = (error_response 404 ''Project not found'', w)"
  using assms by (simp add: start_research_def)

lemma start_research_known:
  assumes ld: "load_json_data w PROJECTS_FILE = JObj ps"
    and rec: "map_of ps project_id = Some (JObj p)"
    and wr: "PROJECTS_FILE \<notin> unwritable w"
  shows "start_research w project_id now =
           ((if map_of p ''name'' = None then error_response 500 ''Failed to start research''
             else message_response ''Research started successfully''),
            snd (save_json_data w PROJECTS_FILE (JObj (dict_set ps project_id
               (JObj (dict_set (dict_set (dict_set p ''status'' (JStr ''researching''))
                   ''updated_at'' (JStr now)) ''research_progress'' (JInt 0)))))))"
proof -
  have c: "py_contains (JObj ps) project_id = Some True"
    using map_of_in_keys [OF rec] by simp
  show ?thesis
    using rec c
    by (auto simp add: start_research_def ld map_of_dict_set Let_def split: option.splits)
qed

text \<open>
  C8. \<^verbatim>\<open>start_research\<close> on an id that is not in the projects store answers 404 and
  changes nothing. On a project of the store it saves the store with that project's
  \<^verbatim>\<open>status\<close> set to \<^verbatim>\<open>researching\<close>, its \<^verbatim>\<open>research_progress\<close> set to 0 and its
  \<^verbatim>\<open>updated_at\<close> set to the current time; every other field of the project, every other
  project, the order of the projects and every other file stay as they were. (The answer
  is 200, or 500 after the save when the project has no \<^verbatim>\<open>name\<close> for the log line.)
\<close>

theorem start_research_effect:
  "(py_contains (load_json_data w PROJECTS_FILE) project_id = Some False \<longrightarrow>
      start_research w project_id now = (error_response 404 ''Project not found'', w))
   \<and>
   (load_json_data w PROJECTS_FILE = JObj ps \<and> map_of ps project_id = Some (JObj p) \<and>
    PROJECTS_FILE \<notin> unwritable w \<longrightarrow>
      (\<exists>r w' ps' p'.
         start_research w project_id now = (r, w') \<and>
         status r = (if map_of p ''name'' = None then 500 else 200) \<and>
         load_json_data w' PROJECTS_FILE = JObj ps' \<and>
         map fst ps' = map fst ps \<and>
         map_of ps' project_id = Some (JObj p') \<and>
         map_of p' ''status'' = Some (JStr ''researching'') \<and>
         map_of p' ''research_progress'' = Some (JInt 0) \<and>
         map_of p' ''updated_at'' = Some (JStr now) \<and>
         (\<forall>k. k \<notin> {''status'', ''research_progress'', ''updated_at''} \<longrightarrow>
              map_of p' k = map_of p k) \<and>
         (\<forall>other. other \<noteq> project_id \<longrightarrow> map_of ps' other = map_of ps other) \<and>
         (\<forall>path. path \<noteq> PROJECTS_FILE \<longrightarrow> disk w' path = disk w path)))"
proof (intro conjI impI)
  assume "py_contains (load_json_data w PROJECTS_FILE) project_id = Some False"
  then show "start_research w project_id now = (error_response 404 ''Project not found'', w)"
    by (rule start_research_unknown)
next
  assume h: "load_json_data w PROJECTS_FILE = JObj ps \<and> map_of ps project_id = Some (JObj p) \<and>
    PROJECTS_FILE \<notin> unwritable w"
  then have ld: "load_json_data w PROJECTS_FILE = JObj ps"
    and rec: "map_of ps project_id = Some (JObj p)"
    and wr: "PROJECTS_FILE \<notin> unwritable w" by simp_all
  have keys: "project_id \<in> fst ` set ps" using map_of_in_keys [OF rec] .
  show "\<exists>r w' ps' p'.
         start_research w project_id now = (r, w') \<and>
         status r = (if map_of p ''name'' = None then 500 else 200) \<and>
         load_json_data w' PROJECTS_FILE = JObj ps' \<and>
         map fst ps' = map fst ps \<and>
         map_of ps' project_id = Some (JObj p') \<and>
         map_of p' ''status'' = Some (JStr ''researching'') \<and>
         map_of p' ''research_progress'' = Some (JInt 0) \<and>
         map_of p' ''updated_at'' = Some (JStr now) \<and>
         (\<forall>k. k \<notin> {''status'', ''research_progress'', ''updated_at''} \<longrightarrow>
              map_of p' k = map_of p k) \<and>
         (\<forall>other. other \<noteq> project_id \<longrightarrow> map_of ps' other = map_of ps other) \<and>
         (\<forall>path. path \<noteq> PROJECTS_FILE \<longrightarrow> disk w' path = disk w path)"
    unfolding start_research_known [OF ld rec wr]
    using keys wr
    by (simp add: load_after_save map_fst_dict_set map_of_dict_set disk_after_save
        error_response_def message_response_def)
qed

theorem start_research_effect_witness:
  "py_contains (load_json_data research_example PROJECTS_FILE) ''p9'' = Some False \<and>
   start_research research_example ''p9'' ''t1''
     = (error_response 404 ''Project not found'', research_example) \<and>
   map_of [(''p1'', JObj [(''id'', JStr ''p1''), (''name'', JStr ''Alpha''),
                          (''status'', JStr ''setup''), (''research_progress'', JInt 50)]),
           (''p2'', JObj [(''id'', JStr ''p2''), (''name'', JStr ''Beta''),
                          (''status'', JStr ''setup'')])] ''p1''
     = Some (JObj [(''id'', JStr ''p1''), (''name'', JStr ''Alpha''),
                   (''status'', JStr ''setup''), (''research_progress'', JInt 50)]) \<and>
   PROJECTS_FILE \<notin> unwritable research_example \<and>
   status (fst (start_research research_example ''p1'' ''t1'')) = 200 \<and>
   load_json_data (snd (start_research research_example ''p1'' ''t1'')) PROJECTS_FILE =
     JObj [(''p1'', JObj [(''id'', JStr ''p1''), (''name'', JStr ''Alpha''),
                          (''status'', JStr ''researching''), (''research_progress'', JInt 0),
                          (''updated_at'', JStr ''t1'')]),
           (''p2'', JObj [(''id'', JStr ''p2''), (''name'', JStr ''Beta''),
                          (''status'', JStr ''setup'')])]"
proof -
  have ld: "load_json_data research_example PROJECTS_FILE = JObj
        [(''p1'', JObj [(''id'', JStr ''p1''), (''name'', JStr ''Alpha''),
                        (''status'', JStr ''setup''), (''research_progress'', JInt 50)]),
         (''p2'', JObj [(''id'', JStr ''p2''), (''name'', JStr ''Beta''),
                        (''status'', JStr ''setup'')])]"
    by (simp add: research_example_def load_json_data_def os_path_exists_def)
  have wr: "PROJECTS_FILE \<notin> unwritable research_example"
    by (simp add: research_example_def)
  have c: "py_contains (load_json_data research_example PROJECTS_FILE) ''p9'' = Some False"
    by (simp add: ld)
  have rec: "map_of [(''p1'', JObj [(''id'', JStr ''p1''), (''name'', JStr ''Alpha''),
                          (''status'', JStr ''setup''), (''research_progress'', JInt 50)]),
           (''p2'', JObj [(''id'', JStr ''p2''), (''name'', JStr ''Beta''),
                          (''status'', JStr ''setup'')])] ''p1''
     = Some (JObj [(''id'', JStr ''p1''), (''name'', JStr ''Alpha''),
                   (''status'', JStr ''setup''), (''research_progress'', JInt 50)])"
    by simp
  note unknown = start_research_effect [THEN conjunct1, THEN mp, OF c]
  note known = start_research_effect [THEN conjunct2, THEN mp, OF conjI [OF ld conjI [OF rec wr]]]
  from known [of "''t1''"] obtain r w' ps' p' where
    run: "start_research research_example ''p1'' ''t1'' = (r, w')"
    and st: "status r = 200"
    and ld': "load_json_data w' PROJECTS_FILE = JObj ps'"
    by auto
  have "load_json_data (snd (start_research research_example ''p1'' ''t1'')) PROJECTS_FILE =
     JObj [(''p1'', JObj [(''id'', JStr ''p1''), (''name'', JStr ''Alpha''),
                          (''status'', JStr ''researching''), (''research_progress'', JInt 0),
                          (''updated_at'', JStr ''t1'')]),
           (''p2'', JObj [(''id'', JStr ''p2''), (''name'', JStr ''Beta''),
                          (''status'', JStr ''setup'')])]"
    by (simp add: start_research_known [OF ld rec wr] load_after_save [OF wr])
  with unknown c rec wr run st show ?thesis by simp
qed

section \<open>Creating a project\<close>

lemma create_project_no_body:
  "create_project w None uuid now1 now2 = (error_response 500 ''Failed to create project'', w)"
  by (simp add: create_project_def)

lemma create_project_strip_raises:
  assumes "Option.bind (py_get data ''name'' (JStr [])) py_strip = None \<or>
           Option.bind (py_get data ''description'' (JStr [])) py_strip = None"
  shows "create_project w (Some data) uuid now1 now2 =
           (error_response 500 ''Failed to create project'', w)"
  using assms by (auto simp: create_project_def split: Option.bind_splits)

lemma create_project_no_name:
  assumes "py_get data ''name'' (JStr []) = Some (JStr n)"
    and "strip n = []"
    and "py_get data ''description'' (JStr []) = Some (JStr d)"
  shows "create_project w (Some data) uuid now1 now2 =
           (error_response 400 ''Project name is required'', w)"
  using assms by (simp add: create_project_def)

lemma create_project_created:
  assumes "py_get data ''name'' (JStr []) = Some (JStr n)"
    and "strip n \<noteq> []"
    and "py_get data ''description'' (JStr []) = Some (JStr d)"
    and "load_json_data w PROJECTS_FILE = JObj ps"
  shows "create_project w (Some data) uuid now1 now2 =
           (Response 201 (JObj [(''project'', new_project uuid (strip n) (strip d) now1 now2)]),
            snd (save_json_data w PROJECTS_FILE
                   (JObj (dict_set ps uuid (new_project uuid (strip n) (strip d) now1 now2)))))"
  using assms by (simp add: create_project_def Let_def)

lemma new_project_fields:
  "py_getitem (new_project uuid name description now1 now2) ''id'' = Some (JStr uuid)"
  "py_getitem (new_project uuid name description now1 now2) ''name'' = Some (JStr name)"
  "py_getitem (new_project uuid name description now1 now2) ''status'' = Some (JStr ''setup'')"
  "py_getitem (new_project uuid name description now1 now2) ''documents_count'' = Some (JInt 0)"
  "py_getitem (new_project uuid name description now1 now2) ''goals_count'' = Some (JInt 0)"
  "py_getitem (new_project uuid name description now1 now2) ''insights_count'' = Some (JInt 0)"
  "py_getitem (new_project uuid name description now1 now2) ''research_progress'' = Some (JInt 0)"
  by (simp_all add: new_project_def)

text \<open>
  C3, as amended. \<^verbatim>\<open>create_project\<close> strips the name and the description before it
  tests the name. When \<^verbatim>\<open>get_json\<close> raises, or one of the two \<^verbatim>\<open>strip()\<close> calls
  raises (the body is not a JSON object, or its \<^verbatim>\<open>name\<close> or \<^verbatim>\<open>description\<close> is present
  and not a string), the answer is 500 and nothing changes. Otherwise, when the name is
  absent, empty or all whitespace, the answer is 400 and nothing changes. Otherwise, on a
  store that loads as a dictionary and can be written, the answer is 201 with the new
  record, and the store is saved with that record under the id \<^verbatim>\<open>uuid4\<close> returned: its
  \<^verbatim>\<open>id\<close> is that id, its \<^verbatim>\<open>name\<close> is the given name with leading and trailing
  whitespace removed, its \<^verbatim>\<open>status\<close> is \<^verbatim>\<open>setup\<close>, and its three counts and its
  \<^verbatim>\<open>research_progress\<close> are 0. The id is not checked against the store: when the store
  does not hold it the record is appended, when it does the record replaces the project
  stored under it. Every other project and every other file stay as they were. When the
  store cannot be written the answer is 201 all the same and nothing is stored.
\<close>

theorem create_project_effect:
  "create_project w None uuid now1 now2 = (error_response 500 ''Failed to create project'', w)
   \<and>
   (Option.bind (py_get data ''name'' (JStr [])) py_strip = None \<or>
    Option.bind (py_get data ''description'' (JStr [])) py_strip = None \<longrightarrow>
      create_project w (Some data) uuid now1 now2 =
        (error_response 500 ''Failed to create project'', w))
   \<and>
   (py_get data ''name'' (JStr []) = Some (JStr n) \<and> strip n = [] \<and>
    py_get data ''description'' (JStr []) = Some (JStr d) \<longrightarrow>
      create_project w (Some data) uuid now1 now2 =
        (error_response 400 ''Project name is required'', w))
   \<and>
   (py_get data ''name'' (JStr []) = Some (JStr n) \<and> strip n \<noteq> [] \<and>
    py_get data ''description'' (JStr []) = Some (JStr d) \<and>
    load_json_data w PROJECTS_FILE = JObj ps \<and> PROJECTS_FILE \<notin> unwritable w \<longrightarrow>
      (\<exists>project w' ps'.
         create_project w (Some data) uuid now1 now2 =
           (Response 201 (JObj [(''project'', project)]), w') \<and>
         py_getitem project ''id'' = Some (JStr uuid) \<and>
         py_getitem project ''name'' = Some (JStr (strip n)) \<and>
         py_getitem project ''status'' = Some (JStr ''setup'') \<and>
         py_getitem project ''documents_count'' = Some (JInt 0) \<and>
         py_getitem project ''goals_count'' = Some (JInt 0) \<and>
         py_getitem project ''insights_count'' = Some (JInt 0) \<and>
         py_getitem project ''research_progress'' = Some (JInt 0) \<and>
         load_json_data w' PROJECTS_FILE = JObj ps' \<and>
         map_of ps' uuid = Some project \<and>
         (\<forall>other. other \<noteq> uuid \<longrightarrow> map_of ps' other = map_of ps other) \<and>
         map fst ps' = (if uuid \<in> fst ` set ps then map fst ps else map fst ps @ [uuid]) \<and>
         (uuid \<notin> fst ` set ps \<longrightarrow> ps' = ps @ [(uuid, project)]) \<and>
         (\<forall>path. path \<noteq> PROJECTS_FILE \<longrightarrow> disk w' path = disk w path)))
   \<and>
   (py_get data ''name'' (JStr []) = Some (JStr n) \<and> strip n \<noteq> [] \<and>
    py_get data ''description'' (JStr []) = Some (JStr d) \<and>
    load_json_data w PROJECTS_FILE = JObj ps \<and> PROJECTS_FILE \<in> unwritable w \<longrightarrow>
      create_project w (Some data) uuid now1 now2 =
        (Response 201 (JObj [(''project'', new_project uuid (strip n) (strip d) now1 now2)]), w))"
proof (intro conjI impI)
  show "create_project w None uuid now1 now2 = (error_response 500 ''Failed to create project'', w)"
    by (rule create_project_no_body)
next
  assume "Option.bind (py_get data ''name'' (JStr [])) py_strip = None \<or>
    Option.bind (py_get data ''description'' (JStr [])) py_strip = None"
  then show "create_project w (Some data) uuid now1 now2 =
        (error_response 500 ''Failed to create project'', w)"
    by (rule create_project_strip_raises)
next
  assume "py_get data ''name'' (JStr []) = Some (JStr n) \<and> strip n = [] \<and>
    py_get data ''description'' (JStr []) = Some (JStr d)"
  then show "create_project w (Some data) uuid now1 now2 =
        (error_response 400 ''Project name is required'', w)"
    by (simp add: create_project_no_name)
next
  assume h: "py_get data ''name'' (JStr []) = Some (JStr n) \<and> strip n \<noteq> [] \<and>
    py_get data ''description'' (JStr []) = Some (JStr d) \<and>
    load_json_data w PROJECTS_FILE = JObj ps \<and> PROJECTS_FILE \<notin> unwritable w"
  then have run: "create_project w (Some data) uuid now1 now2 =
           (Response 201 (JObj [(''project'', new_project uuid (strip n) (strip d) now1 now2)]),
            snd (save_json_data w PROJECTS_FILE
                   (JObj (dict_set ps uuid (new_project uuid (strip n) (strip d) now1 now2)))))"
    by (simp add: create_project_created)
  from h have wr: "PROJECTS_FILE \<notin> unwritable w" by simp
  show "\<exists>project w' ps'.
         create_project w (Some data) uuid now1 now2 =
           (Response 201 (JObj [(''project'', project)]), w') \<and>
         py_getitem project ''id'' = Some (JStr uuid) \<and>
         py_getitem project ''name'' = Some (JStr (strip n)) \<and>
         py_getitem project ''status'' = Some (JStr ''setup'') \<and>
         py_getitem project ''documents_count'' = Some (JInt 0) \<and>
         py_getitem project ''goals_count'' = Some (JInt 0) \<and>
         py_getitem project ''insights_count'' = Some (JInt 0) \<and>
         py_getitem project ''research_progress'' = Some (JInt 0) \<and>
         load_json_data w' PROJECTS_FILE = JObj ps' \<and>
         map_of ps' uuid = Some project \<and>
         (\<forall>other. other \<noteq> uuid \<longrightarrow> map_of ps' other = map_of ps other) \<and>
         map fst ps' = (if uuid \<in> fst ` set ps then map fst ps else map fst ps @ [uuid]) \<and>
         (uuid \<notin> fst ` set ps \<longrightarrow> ps' = ps @ [(uuid, project)]) \<and>
         (\<forall>path. path \<noteq> PROJECTS_FILE \<longrightarrow> disk w' path = disk w path)"
    unfolding run
    using wr
    by (simp add: load_after_save dict_set_fresh new_project_fields disk_after_save
        map_of_dict_set map_fst_dict_set)
next
  assume "py_get data ''name'' (JStr []) = Some (JStr n) \<and> strip n \<noteq> [] \<and>
    py_get data ''description'' (JStr []) = Some (JStr d) \<and>
    load_json_data w PROJECTS_FILE = JObj ps \<and> PROJECTS_FILE \<in> unwritable w"
  then show "create_project w (Some data) uuid now1 now2 =
        (Response 201 (JObj [(''project'', new_project uuid (strip n) (strip d) now1 now2)]), w)"
    by (simp add: create_project_created save_json_data_def)
qed

lemma load_empty_world: "load_json_data empty_world f = JObj []"
  by (simp add: load_json_data_def os_path_exists_def empty_world_def)


lemma strip_examples:
  "strip ''Alpha'' = ''Alpha''" "strip '' Alpha '' = ''Alpha''" "strip ''Gamma'' = ''Gamma''"
  "strip ''x'' = ''x''" "strip [] = []"
  by (simp_all add: strip_def is_space_def)

lemma research_example_store:
  "load_json_data research_example PROJECTS_FILE = JObj
        [(''p1'', JObj [(''id'', JStr ''p1''), (''name'', JStr ''Alpha''),
                        (''status'', JStr ''setup''), (''research_progress'', JInt 50)]),
         (''p2'', JObj [(''id'', JStr ''p2''), (''name'', JStr ''Beta''),
                        (''status'', JStr ''setup'')])]"
  by (simp add: research_example_def load_json_data_def os_path_exists_def)

lemma load_readonly_world: "load_json_data readonly_world f = JObj []"
  by (simp add: load_json_data_def os_path_exists_def readonly_world_def)

theorem create_project_effect_witness:
  "create_project empty_world None ''u1'' ''t1'' ''t2''
     = (error_response 500 ''Failed to create project'', empty_world) \<and>
   Option.bind (py_get (JObj [(''name'', JStr ''Alpha''), (''description'', JNull)])
     ''description'' (JStr [])) py_strip = None \<and>
   create_project empty_world (Some (JObj [(''name'', JStr ''Alpha''), (''description'', JNull)]))
     ''u1'' ''t1'' ''t2''
     = (error_response 500 ''Failed to create project'', empty_world) \<and>
   py_get (JObj [(''description'', JStr ''x'')]) ''name'' (JStr []) = Some (JStr []) \<and>
   create_project empty_world (Some (JObj [(''description'', JStr ''x'')])) ''u1'' ''t1'' ''t2''
     = (error_response 400 ''Project name is required'', empty_world) \<and>
   PROJECTS_FILE \<notin> unwritable empty_world \<and>
   fst (create_project empty_world
          (Some (JObj [(''name'', JStr ''Alpha''), (''description'', JStr ''x'')]))
          ''u1'' ''t1'' ''t2'')
     = Response 201 (JObj [(''project'', new_project ''u1'' ''Alpha'' ''x'' ''t1'' ''t2'')]) \<and>
   load_json_data
     (snd (create_project empty_world
          (Some (JObj [(''name'', JStr ''Alpha''), (''description'', JStr ''x'')]))
          ''u1'' ''t1'' ''t2'')) PROJECTS_FILE
     = JObj [(''u1'', new_project ''u1'' ''Alpha'' ''x'' ''t1'' ''t2'')] \<and>
   PROJECTS_FILE \<in> unwritable readonly_world \<and>
   create_project readonly_world
          (Some (JObj [(''name'', JStr ''Alpha''), (''description'', JStr ''x'')]))
          ''u1'' ''t1'' ''t2''
     = (Response 201 (JObj [(''project'', new_project ''u1'' ''Alpha'' ''x'' ''t1'' ''t2'')]),
        readonly_world)"
proof -
  note t = create_project_effect
  have h2: "Option.bind (py_get (JObj [(''name'', JStr ''Alpha''), (''description'', JNull)])
       ''name'' (JStr [])) py_strip = None \<or>
     Option.bind (py_get (JObj [(''name'', JStr ''Alpha''), (''description'', JNull)])
       ''description'' (JStr [])) py_strip = None"
    by simp
  have h3: "py_get (JObj [(''description'', JStr ''x'')]) ''name'' (JStr []) = Some (JStr []) \<and>
      strip [] = [] \<and>
      py_get (JObj [(''description'', JStr ''x'')]) ''description'' (JStr []) = Some (JStr ''x'')"
    by (simp add: strip_examples)
  have h4: "py_get (JObj [(''name'', JStr ''Alpha''), (''description'', JStr ''x'')]) ''name'' (JStr [])
        = Some (JStr ''Alpha'') \<and>
      strip ''Alpha'' \<noteq> [] \<and>
      py_get (JObj [(''name'', JStr ''Alpha''), (''description'', JStr ''x'')]) ''description''
        (JStr []) = Some (JStr ''x'') \<and>
      load_json_data empty_world PROJECTS_FILE = JObj [] \<and>
      PROJECTS_FILE \<notin> unwritable empty_world"
    by (simp add: strip_examples load_empty_world) (simp add: empty_world_def)
  have h5: "py_get (JObj [(''name'', JStr ''Alpha''), (''description'', JStr ''x'')]) ''name'' (JStr [])
        = Some (JStr ''Alpha'') \<and>
      strip ''Alpha'' \<noteq> [] \<and>
      py_get (JObj [(''name'', JStr ''Alpha''), (''description'', JStr ''x'')]) ''description''
        (JStr []) = Some (JStr ''x'') \<and>
      load_json_data readonly_world PROJECTS_FILE = JObj [] \<and>
      PROJECTS_FILE \<in> unwritable readonly_world"
    by (simp add: strip_examples load_readonly_world) (simp add: readonly_world_def)
  note no_body = t [where w = empty_world and uuid = "''u1''" and ?now1.0 = "''t1''"
      and ?now2.0 = "''t2''", THEN conjunct1]
  note raises = t [where w = empty_world and uuid = "''u1''" and ?now1.0 = "''t1''"
      and ?now2.0 = "''t2''", THEN conjunct2, THEN conjunct1, THEN mp, OF h2]
  note rejected = t [where w = empty_world and uuid = "''u1''" and ?now1.0 = "''t1''"
      and ?now2.0 = "''t2''", THEN conjunct2, THEN conjunct2, THEN conjunct1, THEN mp, OF h3]
  note created = t [where w = empty_world and uuid = "''u1''" and ?now1.0 = "''t1''"
      and ?now2.0 = "''t2''", THEN conjunct2, THEN conjunct2, THEN conjunct2, THEN conjunct1,
      THEN mp, OF h4]
  note unsaved = t [where w = readonly_world and uuid = "''u1''" and ?now1.0 = "''t1''"
      and ?now2.0 = "''t2''", THEN conjunct2, THEN conjunct2, THEN conjunct2, THEN conjunct2,
      THEN mp, OF h5]
  from created obtain project w' ps' where
    run: "create_project empty_world
          (Some (JObj [(''name'', JStr ''Alpha''), (''description'', JStr ''x'')]))
          ''u1'' ''t1'' ''t2'' = (Response 201 (JObj [(''project'', project)]), w')"
    and ld: "load_json_data w' PROJECTS_FILE = JObj ps'"
    and fresh: "''u1'' \<notin> fst ` set [] \<longrightarrow> ps' = [] @ [(''u1'', project)]"
    by auto
  have ex: "create_project empty_world
          (Some (JObj [(''name'', JStr ''Alpha''), (''description'', JStr ''x'')]))
          ''u1'' ''t1'' ''t2'' =
       (Response 201 (JObj [(''project'', new_project ''u1'' ''Alpha'' ''x'' ''t1'' ''t2'')]),
        snd (save_json_data empty_world PROJECTS_FILE
               (JObj (dict_set [] ''u1'' (new_project ''u1'' ''Alpha'' ''x'' ''t1'' ''t2'')))))"
    using create_project_created [of "JObj [(''name'', JStr ''Alpha''), (''description'', JStr ''x'')]"
        "''Alpha''" "''x''" empty_world "[]" "''u1''" "''t1''" "''t2''"] h4
    by (simp add: strip_examples)
  from run ex have project: "project = new_project ''u1'' ''Alpha'' ''x'' ''t1'' ''t2''"
    by simp
  from fresh ld project have stored: "load_json_data w' PROJECTS_FILE =
      JObj [(''u1'', new_project ''u1'' ''Alpha'' ''x'' ''t1'' ''t2'')]"
    by simp
  from unsaved have unsaved': "create_project readonly_world
          (Some (JObj [(''name'', JStr ''Alpha''), (''description'', JStr ''x'')]))
          ''u1'' ''t1'' ''t2''
     = (Response 201 (JObj [(''project'', new_project ''u1'' ''Alpha'' ''x'' ''t1'' ''t2'')]),
        readonly_world)"
    by (simp add: strip_examples)
  have c: "Option.bind (py_get (JObj [(''name'', JStr ''Alpha''), (''description'', JNull)])
     ''description'' (JStr [])) py_strip = None"
    by simp
  from no_body raises rejected h3 h4 h5 run project stored unsaved' c show ?thesis
    by simp
qed

text \<open>
  C3 as stated fails on the code in these four ways. For the name \<^verbatim>\<open>' Alpha '\<close>, with a
  space on each side, the answer is 201 and the record that is returned and stored holds
  \<^verbatim>\<open>'Alpha'\<close>, not the given name. For a body with the name \<^verbatim>\<open>'Alpha'\<close> and the
  description \<^verbatim>\<open>null\<close> the answer is 500, not 201, and for a body with no name and the
  description 5 it is 500, not 400: both \<^verbatim>\<open>strip()\<close> calls run before the name is
  tested. For a generated id that the store already holds (here \<^verbatim>\<open>p1\<close>) the answer is
  201 and the project stored under that id is replaced: the id is not made fresh. And when
  the projects file cannot be written the answer is 201 and no record is created.
\<close>

theorem create_project_given_name_counterexample:
  "fst (create_project empty_world (Some (JObj [(''name'', JStr '' Alpha '')])) ''u1'' ''t1'' ''t2'')
     = Response 201 (JObj [(''project'', new_project ''u1'' ''Alpha'' [] ''t1'' ''t2'')]) \<and>
   load_json_data
     (snd (create_project empty_world (Some (JObj [(''name'', JStr '' Alpha '')])) ''u1'' ''t1'' ''t2''))
     PROJECTS_FILE
     = JObj [(''u1'', new_project ''u1'' ''Alpha'' [] ''t1'' ''t2'')] \<and>
   py_getitem (new_project ''u1'' ''Alpha'' [] ''t1'' ''t2'') ''name'' = Some (JStr ''Alpha'') \<and>
   py_getitem (new_project ''u1'' ''Alpha'' [] ''t1'' ''t2'') ''name'' \<noteq> Some (JStr '' Alpha '') \<and>
   create_project empty_world (Some (JObj [(''name'', JStr ''Alpha''), (''description'', JNull)]))
     ''u1'' ''t1'' ''t2''
     = (error_response 500 ''Failed to create project'', empty_world) \<and>
   create_project empty_world (Some (JObj [(''description'', JInt 5)])) ''u1'' ''t1'' ''t2''
     = (error_response 500 ''Failed to create project'', empty_world) \<and>
   fst (create_project research_example (Some (JObj [(''name'', JStr ''Gamma'')])) ''p1'' ''t1'' ''t2'')
     = Response 201 (JObj [(''project'', new_project ''p1'' ''Gamma'' [] ''t1'' ''t2'')]) \<and>
   load_json_data
     (snd (create_project research_example (Some (JObj [(''name'', JStr ''Gamma'')])) ''p1'' ''t1'' ''t2''))
     PROJECTS_FILE
     = JObj [(''p1'', new_project ''p1'' ''Gamma'' [] ''t1'' ''t2''),
             (''p2'', JObj [(''id'', JStr ''p2''), (''name'', JStr ''Beta''),
                            (''status'', JStr ''setup'')])] \<and>
   create_project readonly_world (Some (JObj [(''name'', JStr ''Alpha'')])) ''u1'' ''t1'' ''t2''
     = (Response 201 (JObj [(''project'', new_project ''u1'' ''Alpha'' [] ''t1'' ''t2'')]),
        readonly_world) \<and>
   load_json_data readonly_world PROJECTS_FILE = JObj []"
proof -
  have wr: "PROJECTS_FILE \<notin> unwritable empty_world" by (simp add: empty_world_def)
  have wr2: "PROJECTS_FILE \<notin> unwritable research_example" by (simp add: research_example_def)
  have ro: "PROJECTS_FILE \<in> unwritable readonly_world" by (simp add: readonly_world_def)
  have a: "create_project empty_world (Some (JObj [(''name'', JStr '' Alpha '')])) ''u1'' ''t1'' ''t2'' =
       (Response 201 (JObj [(''project'', new_project ''u1'' ''Alpha'' [] ''t1'' ''t2'')]),
        snd (save_json_data empty_world PROJECTS_FILE
               (JObj (dict_set [] ''u1'' (new_project ''u1'' ''Alpha'' [] ''t1'' ''t2'')))))"
    using create_project_created [of "JObj [(''name'', JStr '' Alpha '')]"
        "'' Alpha ''" "[]" empty_world "[]" "''u1''" "''t1''" "''t2''"]
    by (simp add: load_empty_world strip_examples)
  have b: "create_project empty_world
      (Some (JObj [(''name'', JStr ''Alpha''), (''description'', JNull)])) ''u1'' ''t1'' ''t2''
     = (error_response 500 ''Failed to create project'', empty_world)"
    by (rule create_project_strip_raises) simp
  have c: "create_project empty_world (Some (JObj [(''description'', JInt 5)])) ''u1'' ''t1'' ''t2''
     = (error_response 500 ''Failed to create project'', empty_world)"
    by (rule create_project_strip_raises) simp
  have d: "create_project research_example (Some (JObj [(''name'', JStr ''Gamma'')])) ''p1'' ''t1'' ''t2'' =
       (Response 201 (JObj [(''project'', new_project ''p1'' ''Gamma'' [] ''t1'' ''t2'')]),
        snd (save_json_data research_example PROJECTS_FILE
               (JObj (dict_set
                  [(''p1'', JObj [(''id'', JStr ''p1''), (''name'', JStr ''Alpha''),
                        (''status'', JStr ''setup''), (''research_progress'', JInt 50)]),
                   (''p2'', JObj [(''id'', JStr ''p2''), (''name'', JStr ''Beta''),
                        (''status'', JStr ''setup'')])]
                  ''p1'' (new_project ''p1'' ''Gamma'' [] ''t1'' ''t2'')))))"
    using create_project_created [of "JObj [(''name'', JStr ''Gamma'')]"
        "''Gamma''" "[]" research_example _ "''p1''" "''t1''" "''t2''", OF _ _ _ research_example_store]
    by (simp add: strip_examples)
  have e: "create_project readonly_world (Some (JObj [(''name'', JStr ''Alpha'')])) ''u1'' ''t1'' ''t2''
     = (Response 201 (JObj [(''project'', new_project ''u1'' ''Alpha'' [] ''t1'' ''t2'')]),
        readonly_world)"
    using create_project_created [of "JObj [(''name'', JStr ''Alpha'')]"
        "''Alpha''" "[]" readonly_world "[]" "''u1''" "''t1''" "''t2''"] ro
    by (simp add: load_readonly_world strip_examples save_json_data_def)
  show ?thesis
    unfolding a b c d e
    by (simp add: load_after_save [OF wr] load_after_save [OF wr2] new_project_fields
        load_readonly_world)
qed

section \<open>Uploading a file\<close>

lemma upload_file_400_iff:
  "status (fst (upload_file secure_filename w file_part form_project_id uuid now)) = 400 \<longleftrightarrow>
     (case file_part of
        None \<Rightarrow> True
      | Some file \<Rightarrow>
          form_project_id = None \<or> form_project_id = Some [] \<or> filename file = [] \<or>
          \<not> allowed_file (filename file))"
  by (simp add: upload_file_def error_response_def Let_def split: option.splits)

lemma upload_file_400_unchanged:
  assumes "status (fst (upload_file secure_filename w file_part form_project_id uuid now)) = 400"
  shows "snd (upload_file secure_filename w file_part form_project_id uuid now) = w"
  using assms
  by (auto simp: upload_file_def error_response_def Let_def split: option.splits if_splits)

text \<open>
  C9. \<^verbatim>\<open>upload_file\<close> answers 400 exactly when the file part is missing, the
  project id is missing or empty, the filename is empty or its extension is not allowed;
  and whenever it answers 400 the disk is as it was: no file was written and the metadata
  store is unchanged.
\<close>

theorem upload_file_rejects_before_writing:
  "(status (fst (upload_file secure_filename w file_part form_project_id uuid now)) = 400 \<longleftrightarrow>
     (case file_part of
        None \<Rightarrow> True
      | Some file \<Rightarrow>
          form_project_id = None \<or> form_project_id = Some [] \<or> filename file = [] \<or>
          \<not> allowed_file (filename file)))
   \<and>
   (status (fst (upload_file secure_filename w file_part form_project_id uuid now)) = 400 \<longrightarrow>
      snd (upload_file secure_filename w file_part form_project_id uuid now) = w)"
  using upload_file_400_iff upload_file_400_unchanged by blast

lemma allowed_file_examples:
  "\<not> allowed_file ''virus.exe''" "allowed_file ''notes.txt''" "allowed_file ''.txt''"
  "allowed_file ''Report.PDF''" "\<not> allowed_file ''README''"
  by (simp_all add: allowed_file_def index1_def rsplit_dot_def lower_def lower_char_def
      ALLOWED_EXTENSIONS_def)

theorem upload_file_rejects_before_writing_witness:
  "status (fst (upload_file werkzeug_secure_filename empty_world (Some (text_upload ''virus.exe''))
             (Some ''p1'') ''f1'' ''t1'')) = 400 \<and>
   snd (upload_file werkzeug_secure_filename empty_world (Some (text_upload ''virus.exe''))
          (Some ''p1'') ''f1'' ''t1'') = empty_world \<and>
   status (fst (upload_file werkzeug_secure_filename empty_world None (Some ''p1'') ''f1'' ''t1''))
     = 400 \<and>
   status (fst (upload_file werkzeug_secure_filename empty_world (Some (text_upload ''notes.txt''))
             None ''f1'' ''t1'')) = 400 \<and>
   status (fst (upload_file werkzeug_secure_filename empty_world (Some (text_upload []))
             (Some ''p1'') ''f1'' ''t1'')) = 400"
proof -
  note t = upload_file_rejects_before_writing [of werkzeug_secure_filename empty_world _ _ "''f1''" "''t1''"]
  have a: "status (fst (upload_file werkzeug_secure_filename empty_world
             (Some (text_upload ''virus.exe'')) (Some ''p1'') ''f1'' ''t1'')) = 400"
    using t [of "Some (text_upload ''virus.exe'')" "Some ''p1''"]
    by (simp add: text_upload_def allowed_file_examples)
  have b: "snd (upload_file werkzeug_secure_filename empty_world (Some (text_upload ''virus.exe''))
          (Some ''p1'') ''f1'' ''t1'') = empty_world"
    using t [of "Some (text_upload ''virus.exe'')" "Some ''p1''"] a by blast
  have c: "status (fst (upload_file werkzeug_secure_filename empty_world None (Some ''p1'') ''f1'' ''t1''))
     = 400"
    using t [of None "Some ''p1''"] by simp
  have d: "status (fst (upload_file werkzeug_secure_filename empty_world
             (Some (text_upload ''notes.txt'')) None ''f1'' ''t1'')) = 400"
    using t [of "Some (text_upload ''notes.txt'')" None] by simp
  have e: "status (fst (upload_file werkzeug_secure_filename empty_world (Some (text_upload []))
             (Some ''p1'') ''f1'' ''t1'')) = 400"
    using t [of "Some (text_upload [])" "Some ''p1''"] by (simp add: text_upload_def)
  from a b c d e show ?thesis by simp
qed

lemma upload_path_has_underscore:
  "CHR ''_'' \<in> set (os_path_join UPLOAD_FOLDER (uuid @ ''_'' @ fname))"
  by (simp add: os_path_join_def UPLOAD_FOLDER_def)

lemma upload_path_not_store:
  "os_path_join UPLOAD_FOLDER (uuid @ ''_'' @ fname) \<noteq> FILES_FILE"
proof
  assume "os_path_join UPLOAD_FOLDER (uuid @ ''_'' @ fname) = FILES_FILE"
  then have "CHR ''_'' \<in> set FILES_FILE"
    using upload_path_has_underscore [of uuid fname] by simp
  then show False by (simp add: store_paths)
qed

lemma load_after_file_save:
  "file_save w path bytes = Some w1 \<Longrightarrow> g \<noteq> path \<Longrightarrow> load_json_data w1 g = load_json_data w g"
  by (auto simp: file_save_def load_json_data_def os_path_exists_def split: if_splits)

lemma index1_rsplit_dot:
  "CHR ''.'' \<in> set s \<Longrightarrow>
     index1 (rsplit_dot s) = Some (rev (takeWhile (\<lambda>c. c \<noteq> CHR ''.'') (rev s)))"
  by (simp add: index1_def rsplit_dot_def)

lemma index1_rsplit_no_dot: "CHR ''.'' \<notin> set s \<Longrightarrow> index1 (rsplit_dot s) = None"
  by (simp add: index1_def rsplit_dot_def)

text \<open>
  What \<^verbatim>\<open>upload_file\<close> does with a request that passes the four validations depends
  on the sanitised name. When it still has a dot, the bytes are written and the metadata
  record is appended to the store, where \<^verbatim>\<open>list_files\<close> shows it; when it has none,
  the handler answers 500 and nothing is stored.
\<close>

lemma upload_file_stored:
  assumes ok: "form_project_id = Some project_id" "project_id \<noteq> []" "filename file \<noteq> []"
      "allowed_file (filename file)"
    and dot: "CHR ''.'' \<in> set (secure_filename (filename file))"
    and ld: "load_json_data w FILES_FILE = JObj fs"
    and fresh: "uuid \<notin> fst ` set fs"
    and wr: "FILES_FILE \<notin> unwritable w"
      "os_path_join UPLOAD_FOLDER (uuid @ ''_'' @ secure_filename (filename file)) \<notin> unwritable w"
  shows "\<exists>file_data w'.
           upload_file secure_filename w (Some file) form_project_id uuid now =
             (Response 200 (JObj [(''file'', file_data)]), w') \<and>
           py_getitem file_data ''original_name'' = Some (JStr (filename file)) \<and>
           py_getitem file_data ''project_id'' = Some (JStr project_id) \<and>
           list_files w' = Response 200 (JObj [(''files'', JArr (map snd fs @ [file_data]))]) \<and>
           disk w' (os_path_join UPLOAD_FOLDER (uuid @ ''_'' @ secure_filename (filename file)))
             = Some (Bytes (stream file))"
proof -
  let ?path = "os_path_join UPLOAD_FOLDER (uuid @ CHR ''_'' # secure_filename (filename file))"
  let ?w1 = "w\<lparr>disk := (disk w)(?path \<mapsto> Bytes (stream file))\<rparr>"
  let ?ext = "lower (rev (takeWhile (\<lambda>c. c \<noteq> CHR ''.'') (rev (secure_filename (filename file)))))"
  let ?fd = "new_file uuid (secure_filename (filename file)) (filename file) (length (stream file))
               (case content_type file of
                  None \<Rightarrow> ''application/'' @ ?ext
                | Some t \<Rightarrow> if t = [] then ''application/'' @ ?ext else t)
               project_id now ?path"
  have fs: "file_save w ?path (stream file) = Some ?w1"
    using wr by (simp add: file_save_def)
  have ne: "?path \<noteq> FILES_FILE"
    using upload_path_not_store [of uuid "secure_filename (filename file)"] by simp
  have ld1: "load_json_data ?w1 FILES_FILE = JObj fs"
    using load_after_file_save [OF fs, of FILES_FILE] ne ld by (simp add: eq_commute)
  have wr1: "FILES_FILE \<notin> unwritable ?w1" using wr by simp
  have run: "upload_file secure_filename w (Some file) form_project_id uuid now =
               (Response 200 (JObj [(''file'', ?fd)]),
                snd (save_json_data ?w1 FILES_FILE (JObj (dict_set fs uuid ?fd))))"
    using ok by (simp add: upload_file_def Let_def index1_rsplit_dot [OF dot] fs ld1)
  have fields: "py_getitem ?fd ''original_name'' = Some (JStr (filename file))"
    "py_getitem ?fd ''project_id'' = Some (JStr project_id)"
    by (simp_all add: new_file_def)
  have listing: "list_files (snd (save_json_data ?w1 FILES_FILE (JObj (dict_set fs uuid ?fd)))) =
      Response 200 (JObj [(''files'', JArr (map snd fs @ [?fd]))])"
    using fresh by (simp add: list_files_def load_after_save [OF wr1] dict_set_fresh)
  have written: "disk (snd (save_json_data ?w1 FILES_FILE (JObj (dict_set fs uuid ?fd)))) ?path
      = Some (Bytes (stream file))"
    using ne wr1 by (simp add: disk_after_save)
  show ?thesis
    unfolding run using fields listing written by simp
qed

lemma upload_file_no_dot_after_sanitising:
  assumes ok: "form_project_id = Some project_id" "project_id \<noteq> []" "filename file \<noteq> []"
      "allowed_file (filename file)"
    and nodot: "CHR ''.'' \<notin> set (secure_filename (filename file))"
  shows "upload_file secure_filename w (Some file) form_project_id uuid now =
           (error_response 500 ''Failed to upload file'', w)"
  using ok by (simp add: upload_file_def Let_def index1_rsplit_no_dot [OF nodot])

text \<open>
  C4. The four rejections hold (see C9), and a name such as \<^verbatim>\<open>notes.txt\<close> is stored
  as the claim says. The claim fails for an allowed name that the sanitiser strips of its
  dot: \<^verbatim>\<open>.txt\<close> passes \<^verbatim>\<open>allowed_file\<close>, werkzeug's \<^verbatim>\<open>secure_filename\<close> returns
  \<^verbatim>\<open>txt\<close>, the second \<^verbatim>\<open>rsplit('.', 1)[1]\<close> raises IndexError, and the handler
  answers 500 without storing anything.
\<close>

theorem upload_file_dot_name_fails:
  "allowed_file ''.txt'' \<and>
   werkzeug_secure_filename ''.txt'' = ''txt'' \<and>
   upload_file werkzeug_secure_filename empty_world (Some (text_upload ''.txt''))
     (Some ''p1'') ''f1'' ''t1''
     = (error_response 500 ''Failed to upload file'', empty_world) \<and>
   list_files (snd (upload_file werkzeug_secure_filename empty_world (Some (text_upload ''.txt''))
     (Some ''p1'') ''f1'' ''t1'')) = Response 200 (JObj [(''files'', JArr [])])"
proof -
  have s: "werkzeug_secure_filename ''.txt'' = ''txt''"
    by (simp add: werkzeug_secure_filename_def strip_chars_def filename_char_def is_space_def)
  have run: "upload_file werkzeug_secure_filename empty_world (Some (text_upload ''.txt''))
     (Some ''p1'') ''f1'' ''t1'' = (error_response 500 ''Failed to upload file'', empty_world)"
    by (rule upload_file_no_dot_after_sanitising [where project_id = "''p1''"])
      (simp_all add: text_upload_def allowed_file_examples s)
  show ?thesis
    by (simp add: run s allowed_file_examples list_files_def load_empty_world)
qed

lemma upload_file_notes_txt_stored:
  "fst (upload_file werkzeug_secure_filename empty_world (Some (text_upload ''notes.txt''))
     (Some ''p1'') ''f1'' ''t1'') =
     Response 200 (JObj [(''file'',
       new_file ''f1'' ''notes.txt'' ''notes.txt'' 5 ''text/plain'' ''p1'' ''t1''
         ''data/f1_notes.txt'')])"
proof -
  have s: "werkzeug_secure_filename ''notes.txt'' = ''notes.txt''"
    by (simp add: werkzeug_secure_filename_def strip_chars_def filename_char_def is_space_def)
  have i: "index1 (rsplit_dot ''notes.txt'') = Some ''txt''"
    by (simp add: index1_def rsplit_dot_def)
  show ?thesis
    by (simp add: upload_file_def Let_def text_upload_def allowed_file_examples s i file_save_def
        empty_world_def load_json_data_def os_path_exists_def os_path_join_def UPLOAD_FOLDER_def
        store_paths eval_nat_numeral)
qed

section \<open>Listings\<close>

lemma records_of_project_dicts:
  "list_all is_dict rs \<Longrightarrow>
     records_of_project rs project_id = Some (filter (has_project_id project_id) rs)"
proof (induction rs)
  case Nil
  then show ?case by simp
next
  case (Cons r rs)
  then obtain d where r: "r = JObj d" by (cases r) auto
  from Cons show ?case by (simp add: r)
qed

lemma list_files_of_store:
  "load_json_data w FILES_FILE = JObj fs \<Longrightarrow>
     list_files w = Response 200 (JObj [(''files'', JArr (map snd fs))])"
  by (cases fs) (simp_all add: list_files_def)

lemma get_project_goals_of_store:
  "load_json_data w GOALS_FILE = JObj gs \<Longrightarrow> list_all is_dict (map snd gs) \<Longrightarrow>
     get_project_goals w project_id =
       Response 200 (JObj [(''goals'',
         JArr (filter (has_project_id (JStr project_id)) (map snd gs)))])"
  by (simp add: get_project_goals_def records_of_project_dicts)

section \<open>Deleting files and goals\<close>

lemma delete_goal_unknown:
  assumes "py_contains (load_json_data w GOALS_FILE) goal_id = Some False"
  shows "delete_goal w goal_id = (error_response 404 ''Goal not found'', w)"
  using assms by (simp add: delete_goal_def)

lemma delete_file_unknown:
  assumes "py_contains (load_json_data w FILES_FILE) file_id = Some False"
  shows "delete_file w file_id = Some (error_response 404 ''File not found'', w)"
  using assms by (simp add: delete_file_def)

lemma delete_goal_known:
  assumes ld: "load_json_data w GOALS_FILE = JObj gs"
    and rec: "map_of gs goal_id = Some g"
  shows "delete_goal w goal_id =
           ((if py_getitem g ''title'' = None then error_response 500 ''Failed to delete goal''
             else message_response ''Goal deleted successfully''),
            snd (save_json_data w GOALS_FILE (JObj (dict_del gs goal_id))))"
proof -
  have c: "goal_id \<in> fst ` set gs" using map_of_in_keys [OF rec] .
  show ?thesis using rec c
    by (auto simp add: delete_goal_def ld Let_def split: option.splits)
qed

lemma delete_file_known:
  assumes ld: "load_json_data w FILES_FILE = JObj fs"
    and rec: "map_of fs file_id = Some (JObj fd)"
    and path: "map_of fd ''path'' = Some (JStr p)" "p \<noteq> []" "p \<notin> unwritable w"
  shows "delete_file w file_id =
           Some ((if map_of fd ''filename'' = None
                  then error_response 500 ''Failed to delete file''
                  else message_response ''File deleted successfully''),
                 snd (save_json_data (w\<lparr>disk := (disk w)(p := None)\<rparr>) FILES_FILE
                        (JObj (dict_del fs file_id))))"
proof -
  have c: "file_id \<in> fst ` set fs" using map_of_in_keys [OF rec] .
  have rm: "remove_physical w (JStr p) = Some (Some (w\<lparr>disk := (disk w)(p := None)\<rparr>))"
    using path by (auto simp: remove_physical_def os_path_exists_def fun_upd_idem)
  show ?thesis using rec c path(1)
    by (auto simp add: delete_file_def ld Let_def rm split: option.splits)
qed

lemma delete_file_without_path:
  assumes ld: "load_json_data w FILES_FILE = JObj fs"
    and rec: "map_of fs file_id = Some (JObj fd)"
    and path: "\<not> truthy (case map_of fd ''path'' of None \<Rightarrow> JNull | Some v \<Rightarrow> v)"
  shows "delete_file w file_id =
           Some ((if map_of fd ''filename'' = None
                  then error_response 500 ''Failed to delete file''
                  else message_response ''File deleted successfully''),
                 snd (save_json_data w FILES_FILE (JObj (dict_del fs file_id))))"
proof -
  have c: "file_id \<in> fst ` set fs" using map_of_in_keys [OF rec] .
  show ?thesis using rec c path
    by (auto simp add: delete_file_def ld Let_def remove_physical_def split: option.splits)
qed

text \<open>
  C7. Deleting a file or a goal whose id is not in its store answers 404 and changes
  nothing. Deleting a goal of the store saves the store without it: the per-project
  listing no longer has the record, every other goal is as before. Deleting a file of the
  store whose record holds a path does the same for the file store and \<^verbatim>\<open>list_files\<close>,
  and nothing is left on disk at the recorded path. (The stores load as dictionaries and
  can be written, the path can be removed and is not the store itself; the answer is 200,
  or 500 after the save when the record has no \<^verbatim>\<open>title\<close> or \<^verbatim>\<open>filename\<close> for the
  log line.)
\<close>

theorem delete_removes_or_404:
  "(py_contains (load_json_data w FILES_FILE) file_id = Some False \<longrightarrow>
      delete_file w file_id = Some (error_response 404 ''File not found'', w))
   \<and>
   (py_contains (load_json_data w GOALS_FILE) goal_id = Some False \<longrightarrow>
      delete_goal w goal_id = (error_response 404 ''Goal not found'', w))
   \<and>
   (load_json_data w GOALS_FILE = JObj gs \<and> map_of gs goal_id = Some (JObj g) \<and>
    list_all is_dict (map snd gs) \<and> GOALS_FILE \<notin> unwritable w \<longrightarrow>
      (\<exists>r w'.
         delete_goal w goal_id = (r, w') \<and>
         status r = (if map_of g ''title'' = None then 500 else 200) \<and>
         load_json_data w' GOALS_FILE = JObj (filter (\<lambda>kv. fst kv \<noteq> goal_id) gs) \<and>
         (\<forall>project_id. get_project_goals w' project_id =
            Response 200 (JObj [(''goals'', JArr (filter (has_project_id (JStr project_id))
              (map snd (filter (\<lambda>kv. fst kv \<noteq> goal_id) gs))))])) \<and>
         (\<forall>path. path \<noteq> GOALS_FILE \<longrightarrow> disk w' path = disk w path)))
   \<and>
   (load_json_data w FILES_FILE = JObj fs \<and> map_of fs file_id = Some (JObj fd) \<and>
    map_of fd ''path'' = Some (JStr p) \<and> p \<noteq> [] \<and> p \<noteq> FILES_FILE \<and>
    p \<notin> unwritable w \<and> FILES_FILE \<notin> unwritable w \<longrightarrow>
      (\<exists>r w'.
         delete_file w file_id = Some (r, w') \<and>
         status r = (if map_of fd ''filename'' = None then 500 else 200) \<and>
         load_json_data w' FILES_FILE = JObj (filter (\<lambda>kv. fst kv \<noteq> file_id) fs) \<and>
         list_files w' =
           Response 200 (JObj [(''files'', JArr (map snd (filter (\<lambda>kv. fst kv \<noteq> file_id) fs)))]) \<and>
         disk w' p = None \<and>
         (\<forall>path. path \<noteq> FILES_FILE \<and> path \<noteq> p \<longrightarrow> disk w' path = disk w path)))"
proof (intro conjI impI)
  assume "py_contains (load_json_data w FILES_FILE) file_id = Some False"
  then show "delete_file w file_id = Some (error_response 404 ''File not found'', w)"
    by (rule delete_file_unknown)
next
  assume "py_contains (load_json_data w GOALS_FILE) goal_id = Some False"
  then show "delete_goal w goal_id = (error_response 404 ''Goal not found'', w)"
    by (rule delete_goal_unknown)
next
  assume h: "load_json_data w GOALS_FILE = JObj gs \<and> map_of gs goal_id = Some (JObj g) \<and>
    list_all is_dict (map snd gs) \<and> GOALS_FILE \<notin> unwritable w"
  let ?w' = "snd (save_json_data w GOALS_FILE (JObj (dict_del gs goal_id)))"
  from h have wr: "GOALS_FILE \<notin> unwritable w" by simp
  from h have run: "delete_goal w goal_id =
           ((if py_getitem (JObj g) ''title'' = None then error_response 500 ''Failed to delete goal''
             else message_response ''Goal deleted successfully''), ?w')"
    using delete_goal_known [of w gs goal_id "JObj g"] by simp
  have ld': "load_json_data ?w' GOALS_FILE = JObj (dict_del gs goal_id)"
    using wr by (rule load_after_save)
  have dicts': "list_all is_dict (map snd (dict_del gs goal_id))"
    using h by (simp add: dict_del_def list_all_iff)
  have listing: "get_project_goals ?w' project_id =
            Response 200 (JObj [(''goals'', JArr (filter (has_project_id (JStr project_id))
              (map snd (dict_del gs goal_id))))])" for project_id
    using get_project_goals_of_store [OF ld' dicts'] .
  show "\<exists>r w'.
         delete_goal w goal_id = (r, w') \<and>
         status r = (if map_of g ''title'' = None then 500 else 200) \<and>
         load_json_data w' GOALS_FILE = JObj (filter (\<lambda>kv. fst kv \<noteq> goal_id) gs) \<and>
         (\<forall>project_id. get_project_goals w' project_id =
            Response 200 (JObj [(''goals'', JArr (filter (has_project_id (JStr project_id))
              (map snd (filter (\<lambda>kv. fst kv \<noteq> goal_id) gs))))])) \<and>
         (\<forall>path. path \<noteq> GOALS_FILE \<longrightarrow> disk w' path = disk w path)"
    unfolding run using ld' listing
    by (simp add: dict_del_def disk_after_save error_response_def message_response_def)
next
  assume h: "load_json_data w FILES_FILE = JObj fs \<and> map_of fs file_id = Some (JObj fd) \<and>
    map_of fd ''path'' = Some (JStr p) \<and> p \<noteq> [] \<and> p \<noteq> FILES_FILE \<and>
    p \<notin> unwritable w \<and> FILES_FILE \<notin> unwritable w"
  let ?w1 = "w\<lparr>disk := (disk w)(p := None)\<rparr>"
  let ?w' = "snd (save_json_data ?w1 FILES_FILE (JObj (dict_del fs file_id)))"
  from h have wr: "FILES_FILE \<notin> unwritable ?w1" and ne: "p \<noteq> FILES_FILE" by simp_all
  from h have run: "delete_file w file_id =
           Some ((if map_of fd ''filename'' = None
                  then error_response 500 ''Failed to delete file''
                  else message_response ''File deleted successfully''), ?w')"
    using delete_file_known [of w fs file_id fd p] by simp
  have ld': "load_json_data ?w' FILES_FILE = JObj (dict_del fs file_id)"
    using wr by (rule load_after_save)
  show "\<exists>r w'.
         delete_file w file_id = Some (r, w') \<and>
         status r = (if map_of fd ''filename'' = None then 500 else 200) \<and>
         load_json_data w' FILES_FILE = JObj (filter (\<lambda>kv. fst kv \<noteq> file_id) fs) \<and>
         list_files w' =
           Response 200 (JObj [(''files'', JArr (map snd (filter (\<lambda>kv. fst kv \<noteq> file_id) fs)))]) \<and>
         disk w' p = None \<and>
         (\<forall>path. path \<noteq> FILES_FILE \<and> path \<noteq> p \<longrightarrow> disk w' path = disk w path)"
    unfolding run using ld' list_files_of_store [OF ld'] ne wr
    by (simp add: dict_del_def disk_after_save error_response_def message_response_def)
qed

lemma files_example_files:
  "load_json_data files_example FILES_FILE = JObj
     [(''f1'', JObj [(''id'', JStr ''f1''), (''filename'', JStr ''a.txt''),
                     (''project_id'', JStr ''p1''), (''path'', JStr ''data/f1_a.txt'')]),
      (''f2'', JObj [(''id'', JStr ''f2''), (''filename'', JStr ''b.txt''),
                     (''project_id'', JStr ''p2''), (''path'', JStr ''data/f2_b.txt'')])]"
  by (simp add: files_example_def load_json_data_def os_path_exists_def store_paths)

lemma files_example_goals:
  "load_json_data files_example GOALS_FILE = JObj
     [(''g1'', JObj [(''id'', JStr ''g1''), (''title'', JStr ''Read''),
                     (''status'', JStr ''active''), (''project_id'', JStr ''p1''),
                     (''updated_at'', JStr ''t0'')]),
      (''g2'', JObj [(''id'', JStr ''g2''), (''title'', JStr ''Write''),
                     (''status'', JStr ''active''), (''project_id'', JStr ''p1''),
                     (''updated_at'', JStr ''t0'')])]"
  by (simp add: files_example_def load_json_data_def os_path_exists_def store_paths)

lemma files_example_writable: "unwritable files_example = {}"
  by (simp add: files_example_def)

theorem delete_removes_or_404_witness:
  "py_contains (load_json_data files_example FILES_FILE) ''f9'' = Some False \<and>
   delete_file files_example ''f9'' = Some (error_response 404 ''File not found'', files_example) \<and>
   py_contains (load_json_data files_example GOALS_FILE) ''g9'' = Some False \<and>
   delete_goal files_example ''g9'' = (error_response 404 ''Goal not found'', files_example) \<and>
   unwritable files_example = {} \<and>
   disk files_example ''data/f1_a.txt'' = Some (Bytes ''hello'') \<and>
   status (fst (delete_goal files_example ''g1'')) = 200 \<and>
   get_project_goals (snd (delete_goal files_example ''g1'')) ''p1'' =
     Response 200 (JObj [(''goals'', JArr
       [JObj [(''id'', JStr ''g2''), (''title'', JStr ''Write''),
              (''status'', JStr ''active''), (''project_id'', JStr ''p1''),
              (''updated_at'', JStr ''t0'')]])]) \<and>
   map_option (\<lambda>rw. (status (fst rw), list_files (snd rw), disk (snd rw) ''data/f1_a.txt''))
     (delete_file files_example ''f1'') =
     Some (200,
           Response 200 (JObj [(''files'', JArr
             [JObj [(''id'', JStr ''f2''), (''filename'', JStr ''b.txt''),
                    (''project_id'', JStr ''p2''), (''path'', JStr ''data/f2_b.txt'')]])]),
           None)"
proof -
  have c1: "py_contains (load_json_data files_example FILES_FILE) ''f9'' = Some False"
    by (simp add: files_example_files)
  have c2: "py_contains (load_json_data files_example GOALS_FILE) ''g9'' = Some False"
    by (simp add: files_example_goals)
  have h3: "load_json_data files_example GOALS_FILE = JObj
     [(''g1'', JObj [(''id'', JStr ''g1''), (''title'', JStr ''Read''),
                     (''status'', JStr ''active''), (''project_id'', JStr ''p1''),
                     (''updated_at'', JStr ''t0'')]),
      (''g2'', JObj [(''id'', JStr ''g2''), (''title'', JStr ''Write''),
                     (''status'', JStr ''active''), (''project_id'', JStr ''p1''),
                     (''updated_at'', JStr ''t0'')])] \<and>
    map_of [(''g1'', JObj [(''id'', JStr ''g1''), (''title'', JStr ''Read''),
                     (''status'', JStr ''active''), (''project_id'', JStr ''p1''),
                     (''updated_at'', JStr ''t0'')]),
      (''g2'', JObj [(''id'', JStr ''g2''), (''title'', JStr ''Write''),
                     (''status'', JStr ''active''), (''project_id'', JStr ''p1''),
                     (''updated_at'', JStr ''t0'')])] ''g1'' =
      Some (JObj [(''id'', JStr ''g1''), (''title'', JStr ''Read''),
                     (''status'', JStr ''active''), (''project_id'', JStr ''p1''),
                     (''updated_at'', JStr ''t0'')]) \<and>
    list_all is_dict (map snd [(''g1'', JObj [(''id'', JStr ''g1''), (''title'', JStr ''Read''),
                     (''status'', JStr ''active''), (''project_id'', JStr ''p1''),
                     (''updated_at'', JStr ''t0'')]),
      (''g2'', JObj [(''id'', JStr ''g2''), (''title'', JStr ''Write''),
                     (''status'', JStr ''active''), (''project_id'', JStr ''p1''),
                     (''updated_at'', JStr ''t0'')])]) \<and>
    GOALS_FILE \<notin> unwritable files_example"
    by (simp add: files_example_goals files_example_writable)
  have ne: "''data/f1_a.txt'' \<noteq> FILES_FILE" by (simp add: store_paths)
  have h4: "load_json_data files_example FILES_FILE = JObj
     [(''f1'', JObj [(''id'', JStr ''f1''), (''filename'', JStr ''a.txt''),
                     (''project_id'', JStr ''p1''), (''path'', JStr ''data/f1_a.txt'')]),
      (''f2'', JObj [(''id'', JStr ''f2''), (''filename'', JStr ''b.txt''),
                     (''project_id'', JStr ''p2''), (''path'', JStr ''data/f2_b.txt'')])] \<and>
    map_of [(''f1'', JObj [(''id'', JStr ''f1''), (''filename'', JStr ''a.txt''),
                     (''project_id'', JStr ''p1''), (''path'', JStr ''data/f1_a.txt'')]),
      (''f2'', JObj [(''id'', JStr ''f2''), (''filename'', JStr ''b.txt''),
                     (''project_id'', JStr ''p2''), (''path'', JStr ''data/f2_b.txt'')])] ''f1'' =
      Some (JObj [(''id'', JStr ''f1''), (''filename'', JStr ''a.txt''),
                     (''project_id'', JStr ''p1''), (''path'', JStr ''data/f1_a.txt'')]) \<and>
    map_of [(''id'', JStr ''f1''), (''filename'', JStr ''a.txt''),
            (''project_id'', JStr ''p1''), (''path'', JStr ''data/f1_a.txt'')] ''path'' =
      Some (JStr ''data/f1_a.txt'') \<and>
    ''data/f1_a.txt'' \<noteq> [] \<and> ''data/f1_a.txt'' \<noteq> FILES_FILE \<and>
    ''data/f1_a.txt'' \<notin> unwritable files_example \<and> FILES_FILE \<notin> unwritable files_example"
    by (simp add: files_example_files files_example_writable ne)
  note t1 = delete_removes_or_404 [THEN conjunct1, THEN mp, OF c1]
  note t2 = delete_removes_or_404 [THEN conjunct2, THEN conjunct1, THEN mp, OF c2]
  note t3 = delete_removes_or_404 [THEN conjunct2, THEN conjunct2, THEN conjunct1, THEN mp, OF h3]
  note t4 = delete_removes_or_404 [THEN conjunct2, THEN conjunct2, THEN conjunct2, THEN mp, OF h4]
  from t3 obtain r3 w3 where
    run3: "delete_goal files_example ''g1'' = (r3, w3)" and st3: "status r3 = 200"
    and l3: "get_project_goals w3 ''p1'' =
            Response 200 (JObj [(''goals'', JArr (filter (has_project_id (JStr ''p1''))
              (map snd (filter (\<lambda>kv. fst kv \<noteq> ''g1'')
                [(''g1'', JObj [(''id'', JStr ''g1''), (''title'', JStr ''Read''),
                     (''status'', JStr ''active''), (''project_id'', JStr ''p1''),
                     (''updated_at'', JStr ''t0'')]),
      (''g2'', JObj [(''id'', JStr ''g2''), (''title'', JStr ''Write''),
                     (''status'', JStr ''active''), (''project_id'', JStr ''p1''),
                     (''updated_at'', JStr ''t0'')])]))))])"
    by auto
  from t4 obtain r4 w4 where
    run4: "delete_file files_example ''f1'' = Some (r4, w4)" and st4: "status r4 = 200"
    and l4: "list_files w4 =
           Response 200 (JObj [(''files'', JArr (map snd (filter (\<lambda>kv. fst kv \<noteq> ''f1'')
     [(''f1'', JObj [(''id'', JStr ''f1''), (''filename'', JStr ''a.txt''),
                     (''project_id'', JStr ''p1''), (''path'', JStr ''data/f1_a.txt'')]),
      (''f2'', JObj [(''id'', JStr ''f2''), (''filename'', JStr ''b.txt''),
                     (''project_id'', JStr ''p2''), (''path'', JStr ''data/f2_b.txt'')])])))])"
    and d4: "disk w4 ''data/f1_a.txt'' = None"
    by auto
  have present: "disk files_example ''data/f1_a.txt'' = Some (Bytes ''hello'')"
    by (simp add: files_example_def store_paths)
  from c1 c2 t1 t2 run3 st3 l3 run4 st4 l4 d4 present show ?thesis
    by (simp add: files_example_writable)
qed

section \<open>Updating a goal\<close>




lemma update_goal_unknown:
  assumes "py_contains (load_json_data w GOALS_FILE) goal_id = Some False"
  shows "update_goal w (Some data) goal_id now = Some (error_response 404 ''Goal not found'', w)"
  using assms by (simp add: update_goal_def)



section \<open>Generating insights\<close>

lemma store_sample_insights:
  "store_insights (JObj ins) (sample_insights project_id u1 u2 u3 t1 t2 t3) =
     Some (JObj (dict_set (dict_set (dict_set ins
       u1 (sample_insights project_id u1 u2 u3 t1 t2 t3 ! 0))
       u2 (sample_insights project_id u1 u2 u3 t1 t2 t3 ! 1))
       u3 (sample_insights project_id u1 u2 u3 t1 t2 t3 ! 2)))"
  by (simp add: sample_insights_def new_insight_def)

lemma dict_set_three_fresh:
  assumes "distinct [u1, u2, u3]" and "{u1, u2, u3} \<inter> fst ` set d = {}"
  shows "dict_set (dict_set (dict_set d u1 a) u2 b) u3 c = d @ [(u1, a), (u2, b), (u3, c)]"
proof -
  from assms have 1: "u1 \<notin> fst ` set d" by auto
  from assms have 2: "u2 \<notin> fst ` set (d @ [(u1, a)])" by auto
  from assms have 3: "u3 \<notin> fst ` set (d @ [(u1, a), (u2, b)])" by auto
  show ?thesis
    using dict_set_fresh [OF 1, of a] dict_set_fresh [OF 2, of b] dict_set_fresh [OF 3, of c]
    by simp
qed

lemma zip_sample_insights:
  "zip [u1, u2, u3] (sample_insights project_id u1 u2 u3 t1 t2 t3) =
     [(u1, sample_insights project_id u1 u2 u3 t1 t2 t3 ! 0),
      (u2, sample_insights project_id u1 u2 u3 t1 t2 t3 ! 1),
      (u3, sample_insights project_id u1 u2 u3 t1 t2 t3 ! 2)]"
  by (simp add: sample_insights_def)

lemma store_sample_insights_fresh:
  assumes "distinct [u1, u2, u3]" and "{u1, u2, u3} \<inter> fst ` set ins = {}"
  shows "store_insights (JObj ins) (sample_insights project_id u1 u2 u3 t1 t2 t3) =
           Some (JObj (ins @ zip [u1, u2, u3] (sample_insights project_id u1 u2 u3 t1 t2 t3)))"
  unfolding store_sample_insights zip_sample_insights
  using dict_set_three_fresh [OF assms] by simp

lemma sample_insights_fields:
  "map (\<lambda>i. (py_getitem i ''project_id'', py_getitem i ''insight_type'',
              py_getitem i ''confidence_score'', py_getitem i ''relevance_score''))
     (sample_insights project_id u1 u2 u3 t1 t2 t3) =
     [(Some (JStr project_id), Some (JStr ''finding''), Some (JFloat 85 2), Some (JFloat 92 2)),
      (Some (JStr project_id), Some (JStr ''recommendation''), Some (JFloat 78 2),
       Some (JFloat 88 2)),
      (Some (JStr project_id), Some (JStr ''question''), Some (JFloat 65 2), Some (JFloat 75 2))]"
  by (simp add: sample_insights_def new_insight_def)

lemma sample_insights_contents:
  "map (\<lambda>i. (py_getitem i ''id'', py_getitem i ''content'', py_getitem i ''created_at''))
     (sample_insights project_id u1 u2 u3 t1 t2 t3) =
     [(Some (JStr u1), Some (JStr finding_content), Some (JStr t1)),
      (Some (JStr u2), Some (JStr recommendation_content), Some (JStr t2)),
      (Some (JStr u3), Some (JStr question_content), Some (JStr t3))]"
  by (simp add: sample_insights_def new_insight_def)

lemma generate_insights_status:
  "status (fst (generate_insights w project_id u1 u2 u3 t1 t2 t3 t4)) = 200 \<or>
   status (fst (generate_insights w project_id u1 u2 u3 t1 t2 t3 t4)) = 500"
  by (simp add: generate_insights_def Let_def error_response_def message_response_def
      split: option.splits bool.splits)

lemma generate_insights_insights_file:
  assumes ld: "load_json_data w INSIGHTS_FILE = JObj ins"
    and wr: "INSIGHTS_FILE \<notin> unwritable w"
    and fresh: "distinct [u1, u2, u3]" "{u1, u2, u3} \<inter> fst ` set ins = {}"
  shows "load_json_data (snd (generate_insights w project_id u1 u2 u3 t1 t2 t3 t4)) INSIGHTS_FILE =
           JObj (ins @ zip [u1, u2, u3] (sample_insights project_id u1 u2 u3 t1 t2 t3))"
proof -
  have ne: "INSIGHTS_FILE \<noteq> PROJECTS_FILE" by (simp add: store_paths)
  show ?thesis
    using wr ne
    by (simp add: generate_insights_def Let_def ld store_sample_insights_fresh [OF fresh]
        load_after_save load_other_after_save split: option.splits bool.splits)
qed

lemma generate_insights_unknown_project:
  assumes ld: "load_json_data w INSIGHTS_FILE = JObj ins"
    and fresh: "distinct [u1, u2, u3]" "{u1, u2, u3} \<inter> fst ` set ins = {}"
    and unknown: "py_contains (load_json_data w PROJECTS_FILE) project_id = Some False"
  shows "generate_insights w project_id u1 u2 u3 t1 t2 t3 t4 =
           (message_response ''Insights generated successfully'',
            snd (save_json_data w INSIGHTS_FILE
              (JObj (ins @ zip [u1, u2, u3] (sample_insights project_id u1 u2 u3 t1 t2 t3)))))"
proof -
  have ne: "PROJECTS_FILE \<noteq> INSIGHTS_FILE" by (simp add: store_paths)
  show ?thesis
    using unknown
    by (simp add: generate_insights_def Let_def ld store_sample_insights_fresh [OF fresh]
        load_other_after_save [OF ne])
qed

lemma generate_insights_known_project:
  assumes ld: "load_json_data w INSIGHTS_FILE = JObj ins"
    and fresh: "distinct [u1, u2, u3]" "{u1, u2, u3} \<inter> fst ` set ins = {}"
    and ps: "load_json_data w PROJECTS_FILE = JObj ps"
    and rec: "map_of ps project_id = Some (JObj p)"
    and progress: "py_get (JObj p) ''research_progress'' (JInt 0) = Some (JInt n)"
  shows "generate_insights w project_id u1 u2 u3 t1 t2 t3 t4 =
           (message_response ''Insights generated successfully'',
            snd (save_json_data
              (snd (save_json_data w INSIGHTS_FILE
                 (JObj (ins @ zip [u1, u2, u3] (sample_insights project_id u1 u2 u3 t1 t2 t3)))))
              PROJECTS_FILE
              (JObj (dict_set ps project_id
                 (JObj (dict_set (dict_set p ''research_progress'' (JInt (min 100 (n + 25))))
                    ''updated_at'' (JStr t4)))))))"
proof -
  have ne: "PROJECTS_FILE \<noteq> INSIGHTS_FILE" by (simp add: store_paths)
  have c: "py_contains (JObj ps) project_id = Some True"
    using map_of_in_keys [OF rec] by simp
  have m: "(if n + 25 < 100 then JInt (n + 25) else JInt 100) = JInt (min 100 (n + 25))"
    by (simp add: min_def)
  show ?thesis
    using rec c progress m
    by (simp add: generate_insights_def Let_def ld store_sample_insights_fresh [OF fresh]
        load_other_after_save [OF ne] ps)
qed

text \<open>
  C1. On an insights store that loads as a dictionary and can be written,
  \<^verbatim>\<open>generate_insights\<close> with three fresh ids appends exactly three records to the
  store, whatever the project id: they carry the given \<^verbatim>\<open>project_id\<close>, the types
  \<^verbatim>\<open>finding\<close>, \<^verbatim>\<open>recommendation\<close> and \<^verbatim>\<open>question\<close>, the scores 0.85/0.92,
  0.78/0.88 and 0.65/0.75 and the three literal texts. When the project is in the projects
  store with an integer \<^verbatim>\<open>research_progress\<close> \<open>n\<close> (0 when it has none), the answer is
  200 and the project's progress becomes \<open>min 100 (n + 25)\<close>; its \<^verbatim>\<open>updated_at\<close> is
  refreshed and nothing else changes in the projects store.
\<close>

theorem generate_insights_adds_three:
  "(load_json_data w INSIGHTS_FILE = JObj ins \<and> INSIGHTS_FILE \<notin> unwritable w \<and>
    distinct [u1, u2, u3] \<and> {u1, u2, u3} \<inter> fst ` set ins = {} \<longrightarrow>
      load_json_data (snd (generate_insights w project_id u1 u2 u3 t1 t2 t3 t4)) INSIGHTS_FILE =
        JObj (ins @ zip [u1, u2, u3] (sample_insights project_id u1 u2 u3 t1 t2 t3)) \<and>
      map (\<lambda>i. (py_getitem i ''project_id'', py_getitem i ''insight_type'',
                 py_getitem i ''confidence_score'', py_getitem i ''relevance_score''))
        (sample_insights project_id u1 u2 u3 t1 t2 t3) =
        [(Some (JStr project_id), Some (JStr ''finding''), Some (JFloat 85 2), Some (JFloat 92 2)),
         (Some (JStr project_id), Some (JStr ''recommendation''), Some (JFloat 78 2),
          Some (JFloat 88 2)),
         (Some (JStr project_id), Some (JStr ''question''), Some (JFloat 65 2),
          Some (JFloat 75 2))] \<and>
      map (\<lambda>i. (py_getitem i ''id'', py_getitem i ''content''))
        (sample_insights project_id u1 u2 u3 t1 t2 t3) =
        [(Some (JStr u1), Some (JStr finding_content)),
         (Some (JStr u2), Some (JStr recommendation_content)),
         (Some (JStr u3), Some (JStr question_content))])
   \<and>
   (load_json_data w INSIGHTS_FILE = JObj ins \<and>
    distinct [u1, u2, u3] \<and> {u1, u2, u3} \<inter> fst ` set ins = {} \<and>
    load_json_data w PROJECTS_FILE = JObj ps \<and> map_of ps project_id = Some (JObj p) \<and>
    py_get (JObj p) ''research_progress'' (JInt 0) = Some (JInt n) \<and>
    PROJECTS_FILE \<notin> unwritable w \<longrightarrow>
      (\<exists>r w' ps' p'.
         generate_insights w project_id u1 u2 u3 t1 t2 t3 t4 = (r, w') \<and>
         status r = 200 \<and>
         load_json_data w' PROJECTS_FILE = JObj ps' \<and>
         map fst ps' = map fst ps \<and>
         map_of ps' project_id = Some (JObj p') \<and>
         map_of p' ''research_progress'' = Some (JInt (min 100 (n + 25))) \<and>
         map_of p' ''updated_at'' = Some (JStr t4) \<and>
         (\<forall>k. k \<notin> {''research_progress'', ''updated_at''} \<longrightarrow> map_of p' k = map_of p k) \<and>
         (\<forall>other. other \<noteq> project_id \<longrightarrow> map_of ps' other = map_of ps other)))"
proof (intro conjI impI)
  assume h: "load_json_data w INSIGHTS_FILE = JObj ins \<and> INSIGHTS_FILE \<notin> unwritable w \<and>
    distinct [u1, u2, u3] \<and> {u1, u2, u3} \<inter> fst ` set ins = {}"
  then have a: "load_json_data w INSIGHTS_FILE = JObj ins" and b: "INSIGHTS_FILE \<notin> unwritable w"
    and c: "distinct [u1, u2, u3]" and d: "{u1, u2, u3} \<inter> fst ` set ins = {}"
    by simp_all
  show "load_json_data (snd (generate_insights w project_id u1 u2 u3 t1 t2 t3 t4)) INSIGHTS_FILE =
        JObj (ins @ zip [u1, u2, u3] (sample_insights project_id u1 u2 u3 t1 t2 t3))"
    by (rule generate_insights_insights_file [OF a b c d])
next
  show "map (\<lambda>i. (py_getitem i ''project_id'', py_getitem i ''insight_type'',
                 py_getitem i ''confidence_score'', py_getitem i ''relevance_score''))
        (sample_insights project_id u1 u2 u3 t1 t2 t3) =
        [(Some (JStr project_id), Some (JStr ''finding''), Some (JFloat 85 2), Some (JFloat 92 2)),
         (Some (JStr project_id), Some (JStr ''recommendation''), Some (JFloat 78 2),
          Some (JFloat 88 2)),
         (Some (JStr project_id), Some (JStr ''question''), Some (JFloat 65 2),
          Some (JFloat 75 2))]"
    by (rule sample_insights_fields)
next
  show "map (\<lambda>i. (py_getitem i ''id'', py_getitem i ''content''))
        (sample_insights project_id u1 u2 u3 t1 t2 t3) =
        [(Some (JStr u1), Some (JStr finding_content)),
         (Some (JStr u2), Some (JStr recommendation_content)),
         (Some (JStr u3), Some (JStr question_content))]"
    by (simp add: sample_insights_def new_insight_def)
next
  assume h: "load_json_data w INSIGHTS_FILE = JObj ins \<and>
    distinct [u1, u2, u3] \<and> {u1, u2, u3} \<inter> fst ` set ins = {} \<and>
    load_json_data w PROJECTS_FILE = JObj ps \<and> map_of ps project_id = Some (JObj p) \<and>
    py_get (JObj p) ''research_progress'' (JInt 0) = Some (JInt n) \<and>
    PROJECTS_FILE \<notin> unwritable w"
  then have a: "load_json_data w INSIGHTS_FILE = JObj ins"
    and c: "distinct [u1, u2, u3]" and d: "{u1, u2, u3} \<inter> fst ` set ins = {}"
    and e: "load_json_data w PROJECTS_FILE = JObj ps" and f: "map_of ps project_id = Some (JObj p)"
    and g: "py_get (JObj p) ''research_progress'' (JInt 0) = Some (JInt n)"
    by simp_all
  note run = generate_insights_known_project [OF a c d e f g, of t1 t2 t3 t4]
  have keys: "project_id \<in> fst ` set ps" using map_of_in_keys [OF f] .
  from h have wr: "PROJECTS_FILE \<notin> unwritable
      (snd (save_json_data w INSIGHTS_FILE
                 (JObj (ins @ zip [u1, u2, u3] (sample_insights project_id u1 u2 u3 t1 t2 t3)))))"
    by (simp add: unwritable_after_save)
  show "\<exists>r w' ps' p'.
         generate_insights w project_id u1 u2 u3 t1 t2 t3 t4 = (r, w') \<and>
         status r = 200 \<and>
         load_json_data w' PROJECTS_FILE = JObj ps' \<and>
         map fst ps' = map fst ps \<and>
         map_of ps' project_id = Some (JObj p') \<and>
         map_of p' ''research_progress'' = Some (JInt (min 100 (n + 25))) \<and>
         map_of p' ''updated_at'' = Some (JStr t4) \<and>
         (\<forall>k. k \<notin> {''research_progress'', ''updated_at''} \<longrightarrow> map_of p' k = map_of p k) \<and>
         (\<forall>other. other \<noteq> project_id \<longrightarrow> map_of ps' other = map_of ps other)"
    unfolding run using keys
    by (simp add: load_after_save [OF wr] map_fst_dict_set map_of_dict_set message_response_def)
qed

text \<open>
  C10. When the project id is not in the projects store, \<^verbatim>\<open>generate_insights\<close>
  still appends the three records, which carry that project id, writes nothing but the
  insights file (the progress update is skipped) and answers with the success message, the
  same response it gives for a project of the store. Whatever the state and the
  arguments, its status is never 404.
\<close>

theorem generate_insights_unknown_project_succeeds:
  "(load_json_data w INSIGHTS_FILE = JObj ins \<and> INSIGHTS_FILE \<notin> unwritable w \<and>
    distinct [u1, u2, u3] \<and> {u1, u2, u3} \<inter> fst ` set ins = {} \<and>
    py_contains (load_json_data w PROJECTS_FILE) project_id = Some False \<longrightarrow>
      (\<exists>w'.
         generate_insights w project_id u1 u2 u3 t1 t2 t3 t4 =
           (message_response ''Insights generated successfully'', w') \<and>
         load_json_data w' INSIGHTS_FILE =
           JObj (ins @ zip [u1, u2, u3] (sample_insights project_id u1 u2 u3 t1 t2 t3)) \<and>
         map (\<lambda>i. py_getitem i ''project_id'') (sample_insights project_id u1 u2 u3 t1 t2 t3) =
           [Some (JStr project_id), Some (JStr project_id), Some (JStr project_id)] \<and>
         (\<forall>path. path \<noteq> INSIGHTS_FILE \<longrightarrow> disk w' path = disk w path)))
   \<and>
   (load_json_data w INSIGHTS_FILE = JObj ins \<and>
    distinct [u1, u2, u3] \<and> {u1, u2, u3} \<inter> fst ` set ins = {} \<and>
    load_json_data w PROJECTS_FILE = JObj ps \<and> map_of ps project_id = Some (JObj p) \<and>
    py_get (JObj p) ''research_progress'' (JInt 0) = Some (JInt n) \<longrightarrow>
      fst (generate_insights w project_id u1 u2 u3 t1 t2 t3 t4) =
        message_response ''Insights generated successfully'')
   \<and>
   status (fst (generate_insights w project_id u1 u2 u3 t1 t2 t3 t4)) \<noteq> 404"
proof (intro conjI impI)
  assume h: "load_json_data w INSIGHTS_FILE = JObj ins \<and> INSIGHTS_FILE \<notin> unwritable w \<and>
    distinct [u1, u2, u3] \<and> {u1, u2, u3} \<inter> fst ` set ins = {} \<and>
    py_contains (load_json_data w PROJECTS_FILE) project_id = Some False"
  then have a: "load_json_data w INSIGHTS_FILE = JObj ins" and wr: "INSIGHTS_FILE \<notin> unwritable w"
    and c: "distinct [u1, u2, u3]" and d: "{u1, u2, u3} \<inter> fst ` set ins = {}"
    and e: "py_contains (load_json_data w PROJECTS_FILE) project_id = Some False"
    by simp_all
  note run = generate_insights_unknown_project [OF a c d e, of t1 t2 t3 t4]
  show "\<exists>w'.
         generate_insights w project_id u1 u2 u3 t1 t2 t3 t4 =
           (message_response ''Insights generated successfully'', w') \<and>
         load_json_data w' INSIGHTS_FILE =
           JObj (ins @ zip [u1, u2, u3] (sample_insights project_id u1 u2 u3 t1 t2 t3)) \<and>
         map (\<lambda>i. py_getitem i ''project_id'') (sample_insights project_id u1 u2 u3 t1 t2 t3) =
           [Some (JStr project_id), Some (JStr project_id), Some (JStr project_id)] \<and>
         (\<forall>path. path \<noteq> INSIGHTS_FILE \<longrightarrow> disk w' path = disk w path)"
    unfolding run
    by (simp add: load_after_save [OF wr] disk_after_save)
      (simp add: sample_insights_def new_insight_def)
next
  assume h: "load_json_data w INSIGHTS_FILE = JObj ins \<and>
    distinct [u1, u2, u3] \<and> {u1, u2, u3} \<inter> fst ` set ins = {} \<and>
    load_json_data w PROJECTS_FILE = JObj ps \<and> map_of ps project_id = Some (JObj p) \<and>
    py_get (JObj p) ''research_progress'' (JInt 0) = Some (JInt n)"
  then have a: "load_json_data w INSIGHTS_FILE = JObj ins"
    and c: "distinct [u1, u2, u3]" and d: "{u1, u2, u3} \<inter> fst ` set ins = {}"
    and e: "load_json_data w PROJECTS_FILE = JObj ps" and f: "map_of ps project_id = Some (JObj p)"
    and g: "py_get (JObj p) ''research_progress'' (JInt 0) = Some (JInt n)"
    by simp_all
  show "fst (generate_insights w project_id u1 u2 u3 t1 t2 t3 t4) =
        message_response ''Insights generated successfully''"
    by (simp add: generate_insights_known_project [OF a c d e f g])
next
  show "status (fst (generate_insights w project_id u1 u2 u3 t1 t2 t3 t4)) \<noteq> 404"
    using generate_insights_status [of w project_id u1 u2 u3 t1 t2 t3 t4] by auto
qed

lemma research_example_projects:
  "load_json_data research_example PROJECTS_FILE = JObj
        [(''p1'', JObj [(''id'', JStr ''p1''), (''name'', JStr ''Alpha''),
                        (''status'', JStr ''setup''), (''research_progress'', JInt 50)]),
         (''p2'', JObj [(''id'', JStr ''p2''), (''name'', JStr ''Beta''),
                        (''status'', JStr ''setup'')])]"
  by (simp add: research_example_def load_json_data_def os_path_exists_def)

lemma research_example_insights: "load_json_data research_example INSIGHTS_FILE = JObj []"
  by (simp add: research_example_def load_json_data_def os_path_exists_def store_paths)

lemma research_example_writable: "unwritable research_example = {}"
  by (simp add: research_example_def)

theorem generate_insights_adds_three_witness:
  "load_json_data research_example INSIGHTS_FILE = JObj [] \<and>
   unwritable research_example = {} \<and>
   distinct [''i1'', ''i2'', ''i3''] \<and>
   py_get (JObj [(''id'', JStr ''p1''), (''name'', JStr ''Alpha''),
                 (''status'', JStr ''setup''), (''research_progress'', JInt 50)])
     ''research_progress'' (JInt 0) = Some (JInt 50) \<and>
   load_json_data
     (snd (generate_insights research_example ''p1'' ''i1'' ''i2'' ''i3'' ''t1'' ''t2'' ''t3'' ''t4''))
     INSIGHTS_FILE =
     JObj (zip [''i1'', ''i2'', ''i3''] (sample_insights ''p1'' ''i1'' ''i2'' ''i3'' ''t1'' ''t2'' ''t3'')) \<and>
   status (fst (generate_insights research_example ''p1'' ''i1'' ''i2'' ''i3'' ''t1'' ''t2'' ''t3'' ''t4''))
     = 200 \<and>
   load_json_data
     (snd (generate_insights research_example ''p1'' ''i1'' ''i2'' ''i3'' ''t1'' ''t2'' ''t3'' ''t4''))
     PROJECTS_FILE =
     JObj [(''p1'', JObj [(''id'', JStr ''p1''), (''name'', JStr ''Alpha''),
                          (''status'', JStr ''setup''), (''research_progress'', JInt 75),
                          (''updated_at'', JStr ''t4'')]),
           (''p2'', JObj [(''id'', JStr ''p2''), (''name'', JStr ''Beta''),
                          (''status'', JStr ''setup'')])]"
proof -
  have hA: "load_json_data research_example INSIGHTS_FILE = JObj [] \<and>
      INSIGHTS_FILE \<notin> unwritable research_example \<and>
      distinct [''i1'', ''i2'', ''i3''] \<and> {''i1'', ''i2'', ''i3''} \<inter> fst ` set [] = {}"
    by (simp add: research_example_insights research_example_writable)
  have rec: "map_of [(''p1'', JObj [(''id'', JStr ''p1''), (''name'', JStr ''Alpha''),
                        (''status'', JStr ''setup''), (''research_progress'', JInt 50)]),
         (''p2'', JObj [(''id'', JStr ''p2''), (''name'', JStr ''Beta''),
                        (''status'', JStr ''setup'')])] ''p1'' =
      Some (JObj [(''id'', JStr ''p1''), (''name'', JStr ''Alpha''),
                  (''status'', JStr ''setup''), (''research_progress'', JInt 50)])"
    by simp
  have prog: "py_get (JObj [(''id'', JStr ''p1''), (''name'', JStr ''Alpha''),
                 (''status'', JStr ''setup''), (''research_progress'', JInt 50)])
     ''research_progress'' (JInt 0) = Some (JInt 50)"
    by simp
  have hB: "load_json_data research_example INSIGHTS_FILE = JObj [] \<and>
      distinct [''i1'', ''i2'', ''i3''] \<and> {''i1'', ''i2'', ''i3''} \<inter> fst ` set [] = {} \<and>
      load_json_data research_example PROJECTS_FILE = JObj
        [(''p1'', JObj [(''id'', JStr ''p1''), (''name'', JStr ''Alpha''),
                        (''status'', JStr ''setup''), (''research_progress'', JInt 50)]),
         (''p2'', JObj [(''id'', JStr ''p2''), (''name'', JStr ''Beta''),
                        (''status'', JStr ''setup'')])] \<and>
      map_of [(''p1'', JObj [(''id'', JStr ''p1''), (''name'', JStr ''Alpha''),
                        (''status'', JStr ''setup''), (''research_progress'', JInt 50)]),
         (''p2'', JObj [(''id'', JStr ''p2''), (''name'', JStr ''Beta''),
                        (''status'', JStr ''setup'')])] ''p1'' =
        Some (JObj [(''id'', JStr ''p1''), (''name'', JStr ''Alpha''),
                    (''status'', JStr ''setup''), (''research_progress'', JInt 50)]) \<and>
      py_get (JObj [(''id'', JStr ''p1''), (''name'', JStr ''Alpha''),
                 (''status'', JStr ''setup''), (''research_progress'', JInt 50)])
        ''research_progress'' (JInt 0) = Some (JInt 50) \<and>
      PROJECTS_FILE \<notin> unwritable research_example"
    by (simp add: research_example_insights research_example_projects research_example_writable)
  note added = generate_insights_adds_three [THEN conjunct1, THEN mp, OF hA, THEN conjunct1,
      of "''p1''" "''t1''" "''t2''" "''t3''" "''t4''"]
  note bumped = generate_insights_adds_three [THEN conjunct2, THEN mp, OF hB,
      of "''t1''" "''t2''" "''t3''" "''t4''"]
  from bumped obtain r w' where
    run: "generate_insights research_example ''p1'' ''i1'' ''i2'' ''i3'' ''t1'' ''t2'' ''t3'' ''t4''
            = (r, w')"
    and st: "status r = 200"
    by auto
  have wr: "PROJECTS_FILE \<notin> unwritable (snd (save_json_data research_example INSIGHTS_FILE
      (JObj ([] @ zip [''i1'', ''i2'', ''i3'']
         (sample_insights ''p1'' ''i1'' ''i2'' ''i3'' ''t1'' ''t2'' ''t3'')))))"
    by (simp add: unwritable_after_save research_example_writable)
  have fresh: "distinct [''i1'', ''i2'', ''i3'']" "{''i1'', ''i2'', ''i3''} \<inter> fst ` set [] = {}"
    by simp_all
  have projects: "load_json_data
     (snd (generate_insights research_example ''p1'' ''i1'' ''i2'' ''i3'' ''t1'' ''t2'' ''t3'' ''t4''))
     PROJECTS_FILE =
     JObj [(''p1'', JObj [(''id'', JStr ''p1''), (''name'', JStr ''Alpha''),
                          (''status'', JStr ''setup''), (''research_progress'', JInt 75),
                          (''updated_at'', JStr ''t4'')]),
           (''p2'', JObj [(''id'', JStr ''p2''), (''name'', JStr ''Beta''),
                          (''status'', JStr ''setup'')])]"
    unfolding generate_insights_known_project
      [OF research_example_insights fresh research_example_projects rec prog]
    by (simp add: load_after_save unwritable_after_save research_example_writable)
  from added run st projects prog show ?thesis
    by (simp add: research_example_insights research_example_writable)
qed

theorem generate_insights_unknown_project_succeeds_witness:
  "load_json_data research_example INSIGHTS_FILE = JObj [] \<and>
   unwritable research_example = {} \<and>
   distinct [''i1'', ''i2'', ''i3''] \<and>
   py_contains (load_json_data research_example PROJECTS_FILE) ''p9'' = Some False \<and>
   fst (generate_insights research_example ''p9'' ''i1'' ''i2'' ''i3'' ''t1'' ''t2'' ''t3'' ''t4'')
     = message_response ''Insights generated successfully'' \<and>
   fst (generate_insights research_example ''p1'' ''i1'' ''i2'' ''i3'' ''t1'' ''t2'' ''t3'' ''t4'')
     = message_response ''Insights generated successfully'' \<and>
   load_json_data
     (snd (generate_insights research_example ''p9'' ''i1'' ''i2'' ''i3'' ''t1'' ''t2'' ''t3'' ''t4''))
     INSIGHTS_FILE =
     JObj (zip [''i1'', ''i2'', ''i3''] (sample_insights ''p9'' ''i1'' ''i2'' ''i3'' ''t1'' ''t2'' ''t3'')) \<and>
   disk (snd (generate_insights research_example ''p9'' ''i1'' ''i2'' ''i3'' ''t1'' ''t2'' ''t3'' ''t4''))
     PROJECTS_FILE = disk research_example PROJECTS_FILE"
proof -
  have unknown: "py_contains (load_json_data research_example PROJECTS_FILE) ''p9'' = Some False"
    by (simp add: research_example_projects)
  have h1: "load_json_data research_example INSIGHTS_FILE = JObj [] \<and>
      INSIGHTS_FILE \<notin> unwritable research_example \<and>
      distinct [''i1'', ''i2'', ''i3''] \<and> {''i1'', ''i2'', ''i3''} \<inter> fst ` set [] = {} \<and>
      py_contains (load_json_data research_example PROJECTS_FILE) ''p9'' = Some False"
    by (simp add: research_example_insights research_example_writable unknown)
  have h2: "load_json_data research_example INSIGHTS_FILE = JObj [] \<and>
      distinct [''i1'', ''i2'', ''i3''] \<and> {''i1'', ''i2'', ''i3''} \<inter> fst ` set [] = {} \<and>
      load_json_data research_example PROJECTS_FILE = JObj
        [(''p1'', JObj [(''id'', JStr ''p1''), (''name'', JStr ''Alpha''),
                        (''status'', JStr ''setup''), (''research_progress'', JInt 50)]),
         (''p2'', JObj [(''id'', JStr ''p2''), (''name'', JStr ''Beta''),
                        (''status'', JStr ''setup'')])] \<and>
      map_of [(''p1'', JObj [(''id'', JStr ''p1''), (''name'', JStr ''Alpha''),
                        (''status'', JStr ''setup''), (''research_progress'', JInt 50)]),
         (''p2'', JObj [(''id'', JStr ''p2''), (''name'', JStr ''Beta''),
                        (''status'', JStr ''setup'')])] ''p1'' =
        Some (JObj [(''id'', JStr ''p1''), (''name'', JStr ''Alpha''),
                    (''status'', JStr ''setup''), (''research_progress'', JInt 50)]) \<and>
      py_get (JObj [(''id'', JStr ''p1''), (''name'', JStr ''Alpha''),
                 (''status'', JStr ''setup''), (''research_progress'', JInt 50)])
        ''research_progress'' (JInt 0) = Some (JInt 50)"
    by (simp add: research_example_insights research_example_projects)
  note orphan = generate_insights_unknown_project_succeeds [THEN conjunct1, THEN mp, OF h1,
      of "''t1''" "''t2''" "''t3''" "''t4''"]
  note same = generate_insights_unknown_project_succeeds [THEN conjunct2, THEN conjunct1, THEN mp,
      OF h2, of "''t1''" "''t2''" "''t3''" "''t4''"]
  have ne: "PROJECTS_FILE \<noteq> INSIGHTS_FILE" by (simp add: store_paths)
  from orphan obtain w' where
    run: "generate_insights research_example ''p9'' ''i1'' ''i2'' ''i3'' ''t1'' ''t2'' ''t3'' ''t4''
            = (message_response ''Insights generated successfully'', w')"
    and ld: "load_json_data w' INSIGHTS_FILE =
           JObj ([] @ zip [''i1'', ''i2'', ''i3'']
             (sample_insights ''p9'' ''i1'' ''i2'' ''i3'' ''t1'' ''t2'' ''t3''))"
    and frame: "\<forall>path. path \<noteq> INSIGHTS_FILE \<longrightarrow> disk w' path = disk research_example path"
    by auto
  from frame ne have untouched: "disk w' PROJECTS_FILE = disk research_example PROJECTS_FILE"
    by simp
  from run ld untouched same unknown show ?thesis
    by (simp add: research_example_insights research_example_writable)
qed

section \<open>Listing projects\<close>

lemma with_counts_dicts:
  assumes fs: "list_all is_dict (map snd fs)"
    and gs: "list_all is_dict (map snd gs)"
    and ins: "list_all is_dict (map snd ins)"
    and pid: "map_of p ''id'' = Some project_id"
  shows "with_counts (JObj fs) (JObj gs) (JObj ins) (JObj p) =
           Some (JObj (dict_set (dict_set (dict_set (dict_set p
             ''documents_count'' (JInt (count_records project_id fs)))
             ''goals_count'' (JInt (count_records project_id gs)))
             ''insights_count'' (JInt (count_records project_id ins)))
             ''research_progress''
               (case map_of p ''research_progress'' of None \<Rightarrow> JInt 0 | Some v \<Rightarrow> v)))"
  using pid
  by (simp add: with_counts_def records_of_project_dicts [OF fs] records_of_project_dicts [OF gs]
      records_of_project_dicts [OF ins] count_records_def map_of_dict_set)

lemma with_counts_listed:
  assumes fs: "list_all is_dict (map snd fs)"
    and gs: "list_all is_dict (map snd gs)"
    and ins: "list_all is_dict (map snd ins)"
    and p: "is_dict project" "py_getitem project ''id'' \<noteq> None"
  shows "\<exists>returned. with_counts (JObj fs) (JObj gs) (JObj ins) project = Some returned \<and>
           listed_with_counts fs gs ins project returned"
proof -
  from p obtain d project_id where d: "project = JObj d" and pid: "map_of d ''id'' = Some project_id"
    by (cases project) auto
  show ?thesis
    unfolding d with_counts_dicts [OF fs gs ins pid]
    using pid by (simp add: listed_with_counts_def map_of_dict_set)
qed

lemma count_loop_listed:
  assumes fs: "list_all is_dict (map snd fs)"
    and gs: "list_all is_dict (map snd gs)"
    and ins: "list_all is_dict (map snd ins)"
  shows "list_all (\<lambda>p. is_dict p \<and> py_getitem p ''id'' \<noteq> None) projects \<Longrightarrow>
     \<exists>out. count_loop (JObj fs) (JObj gs) (JObj ins) projects = Some out \<and>
           list_all2 (listed_with_counts fs gs ins) projects out"
proof (induction projects)
  case Nil
  then show ?case by simp
next
  case (Cons p projects)
  then have "is_dict p" "py_getitem p ''id'' \<noteq> None" by simp_all
  from with_counts_listed [OF fs gs ins this] obtain returned where
    r: "with_counts (JObj fs) (JObj gs) (JObj ins) p = Some returned"
      "listed_with_counts fs gs ins p returned"
    by auto
  from Cons obtain out where
    o: "count_loop (JObj fs) (JObj gs) (JObj ins) projects = Some out"
      "list_all2 (listed_with_counts fs gs ins) projects out"
    by auto
  show ?case by (simp add: r o)
qed

text \<open>
  C5. When the four stores load as dictionaries of dictionaries and every project has an
  \<^verbatim>\<open>id\<close>, \<^verbatim>\<open>get_projects\<close> answers 200 with one record per stored project, in the
  order of the store; the record of a project carries as \<^verbatim>\<open>documents_count\<close>,
  \<^verbatim>\<open>goals_count\<close> and \<^verbatim>\<open>insights_count\<close> the numbers of file, goal and insight
  records whose \<^verbatim>\<open>project_id\<close> equals the project's \<^verbatim>\<open>id\<close> in the stores as they are
  when the request is served. The counts stored in the project record do not enter the
  result.
\<close>

theorem get_projects_counts_at_read_time:
  "load_json_data w PROJECTS_FILE = JObj ps \<and>
   load_json_data w FILES_FILE = JObj fs \<and>
   load_json_data w GOALS_FILE = JObj gs \<and>
   load_json_data w INSIGHTS_FILE = JObj ins \<and>
   list_all (\<lambda>p. is_dict p \<and> py_getitem p ''id'' \<noteq> None) (map snd ps) \<and>
   list_all is_dict (map snd fs) \<and> list_all is_dict (map snd gs) \<and>
   list_all is_dict (map snd ins) \<longrightarrow>
     (\<exists>out. get_projects w = Response 200 (JObj [(''projects'', JArr out)]) \<and>
            list_all2 (listed_with_counts fs gs ins) (map snd ps) out)"
proof
  assume h: "load_json_data w PROJECTS_FILE = JObj ps \<and>
   load_json_data w FILES_FILE = JObj fs \<and>
   load_json_data w GOALS_FILE = JObj gs \<and>
   load_json_data w INSIGHTS_FILE = JObj ins \<and>
   list_all (\<lambda>p. is_dict p \<and> py_getitem p ''id'' \<noteq> None) (map snd ps) \<and>
   list_all is_dict (map snd fs) \<and> list_all is_dict (map snd gs) \<and>
   list_all is_dict (map snd ins)"
  then have ld: "load_json_data w PROJECTS_FILE = JObj ps" "load_json_data w FILES_FILE = JObj fs"
      "load_json_data w GOALS_FILE = JObj gs" "load_json_data w INSIGHTS_FILE = JObj ins"
    and fs: "list_all is_dict (map snd fs)" and gs: "list_all is_dict (map snd gs)"
    and ins: "list_all is_dict (map snd ins)"
    and ps: "list_all (\<lambda>p. is_dict p \<and> py_getitem p ''id'' \<noteq> None) (map snd ps)"
    by simp_all
  from count_loop_listed [OF fs gs ins ps] obtain out where
    o: "count_loop (JObj fs) (JObj gs) (JObj ins) (map snd ps) = Some out"
      "list_all2 (listed_with_counts fs gs ins) (map snd ps) out"
    by auto
  have "get_projects w = Response 200 (JObj [(''projects'', JArr out)])"
    using o by (cases ps) (simp_all add: get_projects_def ld)
  with o show "\<exists>out. get_projects w = Response 200 (JObj [(''projects'', JArr out)]) \<and>
            list_all2 (listed_with_counts fs gs ins) (map snd ps) out"
    by auto
qed

lemma counts_example_projects:
  "load_json_data counts_example PROJECTS_FILE = JObj
        [(''p1'', JObj [(''id'', JStr ''p1''), (''name'', JStr ''Alpha''),
                        (''documents_count'', JInt 7), (''goals_count'', JInt 0),
                        (''insights_count'', JInt 3), (''research_progress'', JInt 50)]),
         (''p2'', JObj [(''id'', JStr ''p2''), (''name'', JStr ''Beta'')])]"
  by (simp add: counts_example_def load_json_data_def os_path_exists_def)

lemma counts_example_others:
  "load_json_data counts_example FILES_FILE = load_json_data files_example FILES_FILE"
  "load_json_data counts_example GOALS_FILE = load_json_data files_example GOALS_FILE"
  "load_json_data counts_example INSIGHTS_FILE = JObj []"
  by (simp_all add: counts_example_def files_example_def load_json_data_def os_path_exists_def
      store_paths)

lemma get_projects_counts_example:
  "get_projects counts_example = Response 200 (JObj [(''projects'', JArr
     [JObj [(''id'', JStr ''p1''), (''name'', JStr ''Alpha''),
            (''documents_count'', JInt 1), (''goals_count'', JInt 2),
            (''insights_count'', JInt 0), (''research_progress'', JInt 50)],
      JObj [(''id'', JStr ''p2''), (''name'', JStr ''Beta''),
            (''documents_count'', JInt 1), (''goals_count'', JInt 0),
            (''insights_count'', JInt 0), (''research_progress'', JInt 0)]])])"
  by (simp add: get_projects_def counts_example_projects counts_example_others
      files_example_files files_example_goals with_counts_def)

theorem get_projects_counts_at_read_time_witness:
  "load_json_data counts_example INSIGHTS_FILE = JObj [] \<and>
   list_all is_dict (map snd
     [(''f1'', JObj [(''id'', JStr ''f1''), (''filename'', JStr ''a.txt''),
                     (''project_id'', JStr ''p1''), (''path'', JStr ''data/f1_a.txt'')]),
      (''f2'', JObj [(''id'', JStr ''f2''), (''filename'', JStr ''b.txt''),
                     (''project_id'', JStr ''p2''), (''path'', JStr ''data/f2_b.txt'')])]) \<and>
   get_projects counts_example = Response 200 (JObj [(''projects'', JArr
     [JObj [(''id'', JStr ''p1''), (''name'', JStr ''Alpha''),
            (''documents_count'', JInt 1), (''goals_count'', JInt 2),
            (''insights_count'', JInt 0), (''research_progress'', JInt 50)],
      JObj [(''id'', JStr ''p2''), (''name'', JStr ''Beta''),
            (''documents_count'', JInt 1), (''goals_count'', JInt 0),
            (''insights_count'', JInt 0), (''research_progress'', JInt 0)]])]) \<and>
   listed_with_counts
     [(''f1'', JObj [(''id'', JStr ''f1''), (''filename'', JStr ''a.txt''),
                     (''project_id'', JStr ''p1''), (''path'', JStr ''data/f1_a.txt'')]),
      (''f2'', JObj [(''id'', JStr ''f2''), (''filename'', JStr ''b.txt''),
                     (''project_id'', JStr ''p2''), (''path'', JStr ''data/f2_b.txt'')])]
     [(''g1'', JObj [(''id'', JStr ''g1''), (''title'', JStr ''Read''),
                     (''status'', JStr ''active''), (''project_id'', JStr ''p1''),
                     (''updated_at'', JStr ''t0'')]),
      (''g2'', JObj [(''id'', JStr ''g2''), (''title'', JStr ''Write''),
                     (''status'', JStr ''active''), (''project_id'', JStr ''p1''),
                     (''updated_at'', JStr ''t0'')])]
     []
     (JObj [(''id'', JStr ''p1''), (''name'', JStr ''Alpha''),
            (''documents_count'', JInt 7), (''goals_count'', JInt 0),
            (''insights_count'', JInt 3), (''research_progress'', JInt 50)])
     (JObj [(''id'', JStr ''p1''), (''name'', JStr ''Alpha''),
            (''documents_count'', JInt 1), (''goals_count'', JInt 2),
            (''insights_count'', JInt 0), (''research_progress'', JInt 50)])"
proof -
  have h: "load_json_data counts_example PROJECTS_FILE = JObj
        [(''p1'', JObj [(''id'', JStr ''p1''), (''name'', JStr ''Alpha''),
                        (''documents_count'', JInt 7), (''goals_count'', JInt 0),
                        (''insights_count'', JInt 3), (''research_progress'', JInt 50)]),
         (''p2'', JObj [(''id'', JStr ''p2''), (''name'', JStr ''Beta'')])] \<and>
   load_json_data counts_example FILES_FILE = JObj
     [(''f1'', JObj [(''id'', JStr ''f1''), (''filename'', JStr ''a.txt''),
                     (''project_id'', JStr ''p1''), (''path'', JStr ''data/f1_a.txt'')]),
      (''f2'', JObj [(''id'', JStr ''f2''), (''filename'', JStr ''b.txt''),
                     (''project_id'', JStr ''p2''), (''path'', JStr ''data/f2_b.txt'')])] \<and>
   load_json_data counts_example GOALS_FILE = JObj
     [(''g1'', JObj [(''id'', JStr ''g1''), (''title'', JStr ''Read''),
                     (''status'', JStr ''active''), (''project_id'', JStr ''p1''),
                     (''updated_at'', JStr ''t0'')]),
      (''g2'', JObj [(''id'', JStr ''g2''), (''title'', JStr ''Write''),
                     (''status'', JStr ''active''), (''project_id'', JStr ''p1''),
                     (''updated_at'', JStr ''t0'')])] \<and>
   load_json_data counts_example INSIGHTS_FILE = JObj [] \<and>
   list_all (\<lambda>p. is_dict p \<and> py_getitem p ''id'' \<noteq> None) (map snd
        [(''p1'', JObj [(''id'', JStr ''p1''), (''name'', JStr ''Alpha''),
                        (''documents_count'', JInt 7), (''goals_count'', JInt 0),
                        (''insights_count'', JInt 3), (''research_progress'', JInt 50)]),
         (''p2'', JObj [(''id'', JStr ''p2''), (''name'', JStr ''Beta'')])]) \<and>
   list_all is_dict (map snd
     [(''f1'', JObj [(''id'', JStr ''f1''), (''filename'', JStr ''a.txt''),
                     (''project_id'', JStr ''p1''), (''path'', JStr ''data/f1_a.txt'')]),
      (''f2'', JObj [(''id'', JStr ''f2''), (''filename'', JStr ''b.txt''),
                     (''project_id'', JStr ''p2''), (''path'', JStr ''data/f2_b.txt'')])]) \<and>
   list_all is_dict (map snd
     [(''g1'', JObj [(''id'', JStr ''g1''), (''title'', JStr ''Read''),
                     (''status'', JStr ''active''), (''project_id'', JStr ''p1''),
                     (''updated_at'', JStr ''t0'')]),
      (''g2'', JObj [(''id'', JStr ''g2''), (''title'', JStr ''Write''),
                     (''status'', JStr ''active''), (''project_id'', JStr ''p1''),
                     (''updated_at'', JStr ''t0'')])]) \<and>
   list_all is_dict (map snd [])"
    by (simp add: counts_example_projects counts_example_others files_example_files
        files_example_goals)
  from get_projects_counts_at_read_time [THEN mp, OF h] obtain out where
    run: "get_projects counts_example = Response 200 (JObj [(''projects'', JArr out)])"
    and rel: "list_all2 (listed_with_counts
     [(''f1'', JObj [(''id'', JStr ''f1''), (''filename'', JStr ''a.txt''),
                     (''project_id'', JStr ''p1''), (''path'', JStr ''data/f1_a.txt'')]),
      (''f2'', JObj [(''id'', JStr ''f2''), (''filename'', JStr ''b.txt''),
                     (''project_id'', JStr ''p2''), (''path'', JStr ''data/f2_b.txt'')])]
     [(''g1'', JObj [(''id'', JStr ''g1''), (''title'', JStr ''Read''),
                     (''status'', JStr ''active''), (''project_id'', JStr ''p1''),
                     (''updated_at'', JStr ''t0'')]),
      (''g2'', JObj [(''id'', JStr ''g2''), (''title'', JStr ''Write''),
                     (''status'', JStr ''active''), (''project_id'', JStr ''p1''),
                     (''updated_at'', JStr ''t0'')])]
     [])
     (map snd [(''p1'', JObj [(''id'', JStr ''p1''), (''name'', JStr ''Alpha''),
                        (''documents_count'', JInt 7), (''goals_count'', JInt 0),
                        (''insights_count'', JInt 3), (''research_progress'', JInt 50)]),
         (''p2'', JObj [(''id'', JStr ''p2''), (''name'', JStr ''Beta'')])]) out"
    by auto
  from run have out: "out =
     [JObj [(''id'', JStr ''p1''), (''name'', JStr ''Alpha''),
            (''documents_count'', JInt 1), (''goals_count'', JInt 2),
            (''insights_count'', JInt 0), (''research_progress'', JInt 50)],
      JObj [(''id'', JStr ''p2''), (''name'', JStr ''Beta''),
            (''documents_count'', JInt 1), (''goals_count'', JInt 0),
            (''insights_count'', JInt 0), (''research_progress'', JInt 0)]]"
    by (simp add: get_projects_counts_example)
  from rel have first: "listed_with_counts
     [(''f1'', JObj [(''id'', JStr ''f1''), (''filename'', JStr ''a.txt''),
                     (''project_id'', JStr ''p1''), (''path'', JStr ''data/f1_a.txt'')]),
      (''f2'', JObj [(''id'', JStr ''f2''), (''filename'', JStr ''b.txt''),
                     (''project_id'', JStr ''p2''), (''path'', JStr ''data/f2_b.txt'')])]
     [(''g1'', JObj [(''id'', JStr ''g1''), (''title'', JStr ''Read''),
                     (''status'', JStr ''active''), (''project_id'', JStr ''p1''),
                     (''updated_at'', JStr ''t0'')]),
      (''g2'', JObj [(''id'', JStr ''g2''), (''title'', JStr ''Write''),
                     (''status'', JStr ''active''), (''project_id'', JStr ''p1''),
                     (''updated_at'', JStr ''t0'')])]
     []
     (JObj [(''id'', JStr ''p1''), (''name'', JStr ''Alpha''),
            (''documents_count'', JInt 7), (''goals_count'', JInt 0),
            (''insights_count'', JInt 3), (''research_progress'', JInt 50)])
     (JObj [(''id'', JStr ''p1''), (''name'', JStr ''Alpha''),
            (''documents_count'', JInt 1), (''goals_count'', JInt 2),
            (''insights_count'', JInt 0), (''research_progress'', JInt 50)])"
    unfolding out by simp
  from first show ?thesis
    by (simp add: get_projects_counts_example counts_example_others)
qed

text \<open>The listing follows the stores: after a goal of \<open>p1\<close> is deleted it shows one goal.\<close>

lemma get_projects_after_delete_goal:
  "get_projects (snd (delete_goal counts_example ''g1'')) = Response 200 (JObj [(''projects'', JArr
     [JObj [(''id'', JStr ''p1''), (''name'', JStr ''Alpha''),
            (''documents_count'', JInt 1), (''goals_count'', JInt 1),
            (''insights_count'', JInt 0), (''research_progress'', JInt 50)],
      JObj [(''id'', JStr ''p2''), (''name'', JStr ''Beta''),
            (''documents_count'', JInt 1), (''goals_count'', JInt 0),
            (''insights_count'', JInt 0), (''research_progress'', JInt 0)]])])"
proof -
  have g: "load_json_data counts_example GOALS_FILE = JObj
     [(''g1'', JObj [(''id'', JStr ''g1''), (''title'', JStr ''Read''),
                     (''status'', JStr ''active''), (''project_id'', JStr ''p1''),
                     (''updated_at'', JStr ''t0'')]),
      (''g2'', JObj [(''id'', JStr ''g2''), (''title'', JStr ''Write''),
                     (''status'', JStr ''active''), (''project_id'', JStr ''p1''),
                     (''updated_at'', JStr ''t0'')])]"
    by (simp add: counts_example_others files_example_goals)
  have rec: "map_of [(''g1'', JObj [(''id'', JStr ''g1''), (''title'', JStr ''Read''),
                     (''status'', JStr ''active''), (''project_id'', JStr ''p1''),
                     (''updated_at'', JStr ''t0'')]),
      (''g2'', JObj [(''id'', JStr ''g2''), (''title'', JStr ''Write''),
                     (''status'', JStr ''active''), (''project_id'', JStr ''p1''),
                     (''updated_at'', JStr ''t0'')])] ''g1'' =
      Some (JObj [(''id'', JStr ''g1''), (''title'', JStr ''Read''),
                     (''status'', JStr ''active''), (''project_id'', JStr ''p1''),
                     (''updated_at'', JStr ''t0'')])"
    by simp
  have wr: "GOALS_FILE \<notin> unwritable counts_example"
    by (simp add: counts_example_def files_example_writable)
  have ne: "PROJECTS_FILE \<noteq> GOALS_FILE" "FILES_FILE \<noteq> GOALS_FILE" "INSIGHTS_FILE \<noteq> GOALS_FILE"
    by (simp_all add: store_paths)
  show ?thesis
    unfolding delete_goal_known [OF g rec]
    by (simp add: get_projects_def load_after_save [OF wr] load_other_after_save [OF ne(1)]
        load_other_after_save [OF ne(2)] load_other_after_save [OF ne(3)]
        counts_example_projects counts_example_others files_example_files with_counts_def
        dict_del_def)
qed

end
